theory Spec2Isabelle
  imports Complex_Main "HOL-Library.Multiset"
begin

section \<open>JavaScript string and array primitives used by the sources\<close>

text \<open>
  Strings are lists of code units. The whitespace class is the one of \<open>String.prototype.trim\<close>
  and of the regular expression atom \<open>\s\<close>, restricted to the code units a \<open>char\<close> can hold.
\<close>

definition is_ws :: "char \<Rightarrow> bool" where
  "is_ws c = (c = CHR '' '' \<or> c = CHR 0x09 \<or> c = CHR 0x0A \<or> c = CHR 0x0B \<or> c = CHR 0x0C
              \<or> c = CHR 0x0D \<or> c = CHR 0xA0)"

definition trim :: "string \<Rightarrow> string" where
  "trim s = rev (dropWhile is_ws (rev (dropWhile is_ws s)))"

definition startsWith :: "string \<Rightarrow> string \<Rightarrow> bool" where
  "startsWith s p = (take (length p) s = p)"

definition endsWith :: "string \<Rightarrow> string \<Rightarrow> bool" where
  "endsWith s p = (length p \<le> length s \<and> drop (length s - length p) s = p)"

text \<open>\<open>s.includes(p)\<close>: the pattern occurs at some offset of \<open>s\<close>.\<close>

fun str_includes :: "string \<Rightarrow> string \<Rightarrow> bool" where
  "str_includes [] p = (p = [])"
| "str_includes (c # cs) p = (startsWith (c # cs) p \<or> str_includes cs p)"

text \<open>\<open>content.split('\n')\<close>: always at least one piece.\<close>

fun split_lines :: "string \<Rightarrow> string list" where
  "split_lines [] = [] # []"
| "split_lines (c # cs) =
     (if c = CHR 0x0A then [] # split_lines cs
      else (case split_lines cs of
              [] \<Rightarrow> [c] # []
            | l # ls \<Rightarrow> (c # l) # ls))"

text \<open>\<open>lines.join('\n')\<close>.\<close>

fun join_lines :: "string list \<Rightarrow> string" where
  "join_lines [] = []"
| "join_lines [l] = l"
| "join_lines (l # m # ls) = l @ [CHR 0x0A] @ join_lines (m # ls)"

section \<open>Configuration: \<open>src/config/safe-fix-config.ts\<close>\<close>

record WhitelistConfig =
  wl_files :: "string list"
  wl_patterns :: "string list"
  wl_comments :: "string list"

record FixTypeConfig =
  enabled :: bool
  excludePatterns :: "string list option"
  minConfidence :: "real option"

text \<open>
  The user configuration is parsed from \<open>.vibesweeprc.json\<close>; every key may be absent
  (\<open>None\<close>), at every level.
\<close>

record UserSafety =
  us_requireGitClean :: "bool option"
  us_requireBackup :: "bool option"
  us_requireTests :: "bool option"
  us_maxFilesPerRun :: "nat option"
  us_confirmEachFile :: "bool option"
  us_dryRunByDefault :: "bool option"

record UserLevels =
  ul_ultra_safe :: "bool option"
  ul_safe :: "bool option"
  ul_experimental :: "bool option"

record UserCategories =
  uc_console_logs :: "FixTypeConfig option"
  uc_unused_imports :: "FixTypeConfig option"
  uc_dead_code :: "FixTypeConfig option"

record UserFixes =
  uf_levels :: "UserLevels option"
  uf_categories :: "UserCategories option"

record UserValidation =
  uv_runTests :: "bool option"
  uv_runTypeCheck :: "bool option"
  uv_runLinter :: "bool option"
  uv_testCommand :: "string option"
  uv_typeCheckCommand :: "string option"
  uv_lintCommand :: "string option"
  uv_customCommands :: "string list option"

record UserWhitelist =
  uw_files :: "string list option"
  uw_patterns :: "string list option"
  uw_comments :: "string list option"

record SafeFixUserConfig =
  u_safety :: "UserSafety option"
  u_fixes :: "UserFixes option"
  u_validation :: "UserValidation option"
  u_whitelist :: "UserWhitelist option"

text \<open>The merged configuration, \<open>Required<SafeFixUserConfig>\<close>.\<close>

record Safety =
  s_requireGitClean :: bool
  s_requireBackup :: bool
  s_requireTests :: bool
  s_maxFilesPerRun :: nat
  s_confirmEachFile :: bool
  s_dryRunByDefault :: bool

record Levels =
  l_ultra_safe :: bool
  l_safe :: bool
  l_experimental :: bool

record Categories =
  console_logs :: FixTypeConfig
  unused_imports :: FixTypeConfig
  dead_code :: FixTypeConfig

record Fixes =
  levels :: Levels
  categories :: Categories

record MergedValidation =
  v_runTests :: bool
  v_runTypeCheck :: bool
  v_runLinter :: bool
  v_testCommand :: "string option"
  v_typeCheckCommand :: "string option"
  v_lintCommand :: "string option"
  v_customCommands :: "string list"

record MergedConfig =
  safety :: Safety
  fixesCfg :: Fixes
  validation :: MergedValidation
  whitelist :: WhitelistConfig

definition getDefaultConfig :: MergedConfig where
  "getDefaultConfig =
     \<lparr> safety = \<lparr> s_requireGitClean = True, s_requireBackup = True, s_requireTests = True,
                  s_maxFilesPerRun = 10, s_confirmEachFile = False, s_dryRunByDefault = True \<rparr>,
       fixesCfg = \<lparr> levels = \<lparr> l_ultra_safe = True, l_safe = False, l_experimental = False \<rparr>,
                 categories =
                   \<lparr> console_logs = \<lparr> enabled = True,
                                       excludePatterns = Some [''**/debug/**'', ''**/scripts/**''],
                                       minConfidence = Some 0.9 \<rparr>,
                     unused_imports = \<lparr> enabled = False, excludePatterns = None,
                                         minConfidence = Some 0.95 \<rparr>,
                     dead_code = \<lparr> enabled = False, excludePatterns = None,
                                    minConfidence = Some 0.95 \<rparr> \<rparr> \<rparr>,
       validation = \<lparr> v_runTests = True, v_runTypeCheck = True, v_runLinter = True,
                      v_testCommand = None, v_typeCheckCommand = None, v_lintCommand = None,
                      v_customCommands = [] \<rparr>,
       whitelist =
         \<lparr> wl_files = [''**/vendor/**'', ''**/generated/**'', ''**/node_modules/**'',
                       ''**/*.min.js'', ''**/dist/**'', ''**/build/**''],
           wl_patterns = [''_unused.*'', ''DEBUG_.*'', ''LEGACY_.*''],
           wl_comments = [''@vibesweep-ignore'', ''@preserve'', ''eslint-disable.*console'',
                          ''TODO: keep''] \<rparr> \<rparr>"

text \<open>
  Object spread \<open>{ ...d, ...u }\<close>, key by key: a key present in \<open>u\<close> wins.
  \<open>u?.k\<close> of an absent object is absent.
\<close>

definition spread :: "'a \<Rightarrow> 'a option \<Rightarrow> 'a" where
  "spread d u = (case u of None \<Rightarrow> d | Some v \<Rightarrow> v)"

definition spread_opt :: "'a option \<Rightarrow> 'a option \<Rightarrow> 'a option" where
  "spread_opt d u = (case u of None \<Rightarrow> d | Some v \<Rightarrow> Some v)"

definition opt_field :: "'r option \<Rightarrow> ('r \<Rightarrow> 'a option) \<Rightarrow> 'a option" where
  "opt_field r f = (case r of None \<Rightarrow> None | Some x \<Rightarrow> f x)"

text \<open>\<open>xs || []\<close> on an optional array.\<close>

definition or_empty :: "'a list option \<Rightarrow> 'a list" where
  "or_empty xs = (case xs of None \<Rightarrow> [] | Some ys \<Rightarrow> ys)"

definition merge :: "SafeFixUserConfig \<Rightarrow> MergedConfig" where
  "merge userConfig =
     (let defaultConfig = getDefaultConfig;
          us = u_safety userConfig;
          ul = opt_field (u_fixes userConfig) uf_levels;
          uc = opt_field (u_fixes userConfig) uf_categories;
          uv = u_validation userConfig;
          uw = u_whitelist userConfig
      in \<lparr> safety =
             \<lparr> s_requireGitClean = spread (s_requireGitClean (safety defaultConfig))
                                          (opt_field us us_requireGitClean),
               s_requireBackup = spread (s_requireBackup (safety defaultConfig))
                                        (opt_field us us_requireBackup),
               s_requireTests = spread (s_requireTests (safety defaultConfig))
                                       (opt_field us us_requireTests),
               s_maxFilesPerRun = spread (s_maxFilesPerRun (safety defaultConfig))
                                         (opt_field us us_maxFilesPerRun),
               s_confirmEachFile = spread (s_confirmEachFile (safety defaultConfig))
                                          (opt_field us us_confirmEachFile),
               s_dryRunByDefault = spread (s_dryRunByDefault (safety defaultConfig))
                                          (opt_field us us_dryRunByDefault) \<rparr>,
           fixesCfg =
             \<lparr> levels =
                 \<lparr> l_ultra_safe = spread (l_ultra_safe (levels (fixesCfg defaultConfig)))
                                         (opt_field ul ul_ultra_safe),
                   l_safe = spread (l_safe (levels (fixesCfg defaultConfig))) (opt_field ul ul_safe),
                   l_experimental = spread (l_experimental (levels (fixesCfg defaultConfig)))
                                           (opt_field ul ul_experimental) \<rparr>,
               categories =
                 \<lparr> console_logs = spread (console_logs (categories (fixesCfg defaultConfig)))
                                         (opt_field uc uc_console_logs),
                   unused_imports = spread (unused_imports (categories (fixesCfg defaultConfig)))
                                           (opt_field uc uc_unused_imports),
                   dead_code = spread (dead_code (categories (fixesCfg defaultConfig)))
                                      (opt_field uc uc_dead_code) \<rparr> \<rparr>,
           validation =
             \<lparr> v_runTests = spread (v_runTests (validation defaultConfig))
                                   (opt_field uv uv_runTests),
               v_runTypeCheck = spread (v_runTypeCheck (validation defaultConfig))
                                       (opt_field uv uv_runTypeCheck),
               v_runLinter = spread (v_runLinter (validation defaultConfig))
                                    (opt_field uv uv_runLinter),
               v_testCommand = spread_opt (v_testCommand (validation defaultConfig))
                                          (opt_field uv uv_testCommand),
               v_typeCheckCommand = spread_opt (v_typeCheckCommand (validation defaultConfig))
                                               (opt_field uv uv_typeCheckCommand),
               v_lintCommand = spread_opt (v_lintCommand (validation defaultConfig))
                                          (opt_field uv uv_lintCommand),
               v_customCommands = spread (v_customCommands (validation defaultConfig))
                                         (opt_field uv uv_customCommands) \<rparr>,
           whitelist =
             \<lparr> wl_files = wl_files (whitelist defaultConfig) @ or_empty (opt_field uw uw_files),
               wl_patterns = wl_patterns (whitelist defaultConfig)
                             @ or_empty (opt_field uw uw_patterns),
               wl_comments = wl_comments (whitelist defaultConfig)
                             @ or_empty (opt_field uw uw_comments) \<rparr> \<rparr>)"

section \<open>The file system seen by the engine\<close>

text \<open>
  The engine reads and writes whole files through \<open>fs.readFile\<close> and \<open>fs.writeFile\<close>.
  A file system is the content of every existing file together with the set of paths that
  reject a write or a directory creation (permissions, a missing parent, a read-only
  volume). Every rejected operation is an error value, as the promise rejection is.
\<close>

record fsys =
  contents :: "string \<rightharpoonup> string"
  unwritable :: "string set"

datatype error =
    ReadError string
  | WriteError string
  | MkdirError string
  | TypeError
  | OtherError string

definition readFile :: "fsys \<Rightarrow> string \<Rightarrow> error + string" where
  "readFile fs p = (case contents fs p of None \<Rightarrow> Inl (ReadError p) | Some c \<Rightarrow> Inr c)"

definition writeFile :: "fsys \<Rightarrow> string \<Rightarrow> string \<Rightarrow> error + fsys" where
  "writeFile fs p c =
     (if p \<in> unwritable fs then Inl (WriteError p)
      else Inr (fs\<lparr>contents := (contents fs)(p \<mapsto> c)\<rparr>))"

definition mkdir :: "fsys \<Rightarrow> string \<Rightarrow> error + unit" where
  "mkdir fs p = (if p \<in> unwritable fs then Inl (MkdirError p) else Inr ())"

section \<open>Edits: \<open>src/safety/change-preview.ts\<close> and \<open>src/safety/safe-fixer.ts\<close>\<close>

datatype change_type = Remove | Replace | Add

record Change =
  c_file :: string
  line :: int
  ctype :: change_type
  oldContent :: "string option"
  newContent :: "string option"
  description :: string

text \<open>
  \<open>Array.prototype.splice(start, ...)\<close> clamps its start: a negative start counts from the
  end, never below 0; a start past the end is the length.
\<close>

definition splice_start :: "int \<Rightarrow> nat \<Rightarrow> nat" where
  "splice_start start len =
     (if start < 0 then nat (max (int len + start) 0) else min (nat start) len)"

text \<open>\<open>lines.splice(i, 1)\<close>: removes the element at the clamped start, if there is one.\<close>

definition splice_remove :: "int \<Rightarrow> 'a list \<Rightarrow> 'a list" where
  "splice_remove i xs = (let s = splice_start i (length xs) in take s xs @ drop (Suc s) xs)"

text \<open>\<open>lines.splice(i, 0, v)\<close>: inserts before the clamped start.\<close>

definition splice_insert :: "int \<Rightarrow> 'a \<Rightarrow> 'a list \<Rightarrow> 'a list" where
  "splice_insert i v xs = (let s = splice_start i (length xs) in take s xs @ [v] @ drop s xs)"

text \<open>
  \<open>lines[i] = v\<close>: a negative index sets a property that is no element (and \<open>join\<close> never sees
  it); an index past the end extends the array, and \<open>join\<close> renders the holes as empty
  strings.
\<close>

definition index_assign :: "int \<Rightarrow> string \<Rightarrow> string list \<Rightarrow> string list" where
  "index_assign i v xs =
     (if i < 0 then xs
      else if nat i < length xs then xs[nat i := v]
      else xs @ replicate (nat i - length xs) [] @ [v])"

text \<open>The body of the \<open>switch (change.type)\<close>, with \<open>lineIndex = change.line - 1\<close>.\<close>

definition applyChange :: "Change \<Rightarrow> string list \<Rightarrow> string list" where
  "applyChange change lines =
     (let lineIndex = line change - 1
      in case ctype change of
           Remove \<Rightarrow> splice_remove lineIndex lines
         | Replace \<Rightarrow> (case newContent change of
                          None \<Rightarrow> lines
                        | Some v \<Rightarrow> index_assign lineIndex v lines)
         | Add \<Rightarrow> (case newContent change of
                      None \<Rightarrow> lines
                    | Some v \<Rightarrow> splice_insert (lineIndex + 1) v lines))"

text \<open>
  \<open>[...changes].sort((a, b) => b.line - a.line)\<close>: a stable sort, greatest line first.
\<close>

definition sortedChanges :: "Change list \<Rightarrow> Change list" where
  "sortedChanges changes = sort_key (\<lambda>c. - line c) changes"

text \<open>The loop of \<open>applyChangesToFile\<close> over the sorted edits.\<close>

definition applyChanges :: "string list \<Rightarrow> Change list \<Rightarrow> string list" where
  "applyChanges lines changes = foldl (\<lambda>ls c. applyChange c ls) lines (sortedChanges changes)"

definition applyChangesToFile :: "fsys \<Rightarrow> string \<Rightarrow> Change list \<Rightarrow> error + fsys" where
  "applyChangesToFile fs filePath changes =
     (case readFile fs filePath of
        Inl e \<Rightarrow> Inl e
      | Inr content \<Rightarrow>
          writeFile fs filePath (join_lines (applyChanges (split_lines content) changes)))"

text \<open>
  \<open>ChangePreview.generateDiff\<close> up to \<open>modifiedContent\<close>: the same loop over a copy of the
  lines, with nothing written. The rendering of the diff itself is left to the \<open>diff\<close> package.
\<close>

definition modifiedLines :: "string list \<Rightarrow> Change list \<Rightarrow> string list" where
  "modifiedLines lines changes =
     (let modified = lines;
          sorted = sort_key (\<lambda>c. - line c) changes
      in foldl (\<lambda>ls c. applyChange c ls) modified sorted)"

definition modifiedContent :: "fsys \<Rightarrow> string \<Rightarrow> Change list \<Rightarrow> error + string" where
  "modifiedContent fs filePath changes =
     (case readFile fs filePath of
        Inl e \<Rightarrow> Inl e
      | Inr originalContent \<Rightarrow> Inr (join_lines (modifiedLines (split_lines originalContent) changes)))"




section \<open>Validation suite: \<open>src/safety/validation-suite.ts\<close>\<close>

record ValidationConfig =
  runTests :: bool
  runTypeCheck :: bool
  runLinter :: bool
  testCommand :: "string option"
  typeCheckCommand :: "string option"
  lintCommand :: "string option"
  customCommands :: "string list option"
  timeout_ms :: "nat option"

text \<open>The constructor: \<open>{ timeout: 60000, ...config }\<close>.\<close>

definition new_ValidationSuite :: "ValidationConfig \<Rightarrow> ValidationConfig" where
  "new_ValidationSuite config = config\<lparr>timeout_ms := spread_opt (Some 60000) (timeout_ms config)\<rparr>"

text \<open>
  What \<open>execSync\<close> does with a command is outside the program: it either returns the
  captured standard output or throws an error object, of which the code reads \<open>message\<close>,
  \<open>stdout\<close> and \<open>output?.toString()\<close> (each possibly absent).
\<close>

datatype cmd_outcome =
    Completed string
  | Threw "string option" "string option" "string option"

text \<open>\<open>a || b\<close> on strings: an absent or empty \<open>a\<close> is falsy.\<close>

definition truthy :: "string option \<Rightarrow> bool" where
  "truthy a = (case a of None \<Rightarrow> False | Some s \<Rightarrow> s \<noteq> [])"

definition or_str :: "string option \<Rightarrow> string \<Rightarrow> string" where
  "or_str a b = (case a of None \<Rightarrow> b | Some s \<Rightarrow> if s = [] then b else s)"

text \<open>
  The parts of \<open>package.json\<close> that \<open>detectCommands\<close> reads: five entries of \<open>scripts\<close> and
  whether \<open>devDependencies.typescript\<close> is truthy.
\<close>

record PackageJson =
  scripts_test :: "string option"
  scripts_type_check :: "string option"
  scripts_typecheck :: "string option"
  scripts_tsc :: "string option"
  scripts_lint :: "string option"
  dev_typescript :: bool

text \<open>
  The environment of the suite over a world \<open>'w\<close>: running a command (with the configured
  timeout) yields an outcome and a new world; reading and parsing \<open>package.json\<close> may fail
  (\<open>None\<close>); \<open>Date.now()\<close> reads a clock.
\<close>

record 'w venv =
  exec :: "'w \<Rightarrow> string \<Rightarrow> nat option \<Rightarrow> cmd_outcome \<times> 'w"
  readPackageJson :: "'w \<Rightarrow> PackageJson option"
  now :: "'w \<Rightarrow> nat"

definition detectCommands :: "PackageJson option \<Rightarrow> ValidationConfig \<Rightarrow> ValidationConfig" where
  "detectCommands pkg config =
     (case pkg of
        None \<Rightarrow> config
      | Some packageJson \<Rightarrow>
          (let c1 = (if \<not> truthy (testCommand config)
                     then config\<lparr>testCommand := Some (or_str (scripts_test packageJson) ''npm test'')\<rparr>
                     else config);
               c2 = (if \<not> truthy (typeCheckCommand c1)
                     then (if truthy (scripts_type_check packageJson)
                           then c1\<lparr>typeCheckCommand := Some ''npm run type-check''\<rparr>
                           else if truthy (scripts_typecheck packageJson)
                           then c1\<lparr>typeCheckCommand := Some ''npm run typecheck''\<rparr>
                           else if truthy (scripts_tsc packageJson)
                           then c1\<lparr>typeCheckCommand := Some ''npm run tsc''\<rparr>
                           else if dev_typescript packageJson
                           then c1\<lparr>typeCheckCommand := Some ''npx tsc --noEmit''\<rparr>
                           else c1)
                     else c1);
               c3 = (if \<not> truthy (lintCommand c2)
                     then c2\<lparr>lintCommand := Some (or_str (scripts_lint packageJson) ''npm run lint'')\<rparr>
                     else c2)
           in c3))"

record check_result =
  cr_success :: bool
  check :: string
  cr_error :: string
  cr_output :: "string option"

record ValidationResult =
  vr_success :: bool
  passed :: "string list"
  failed :: "check_result list"
  duration :: nat

definition runCommand ::
  "'w venv \<Rightarrow> ValidationConfig \<Rightarrow> 'w \<Rightarrow> string \<Rightarrow> string \<Rightarrow> check_result \<times> 'w" where
  "runCommand env config w checkName command =
     (case exec env w command (timeout_ms config) of
        (Completed out, w') \<Rightarrow>
          (\<lparr>cr_success = True, check = checkName, cr_error = [], cr_output = Some out\<rparr>, w')
      | (Threw message stdout outp, w') \<Rightarrow>
          (let errorMessage = or_str message ''Unknown error'';
               out = or_str stdout (or_str outp [])
           in (\<lparr>cr_success = False, check = checkName, cr_error = errorMessage,
                cr_output = Some (take 1000 out)\<rparr>, w')))"

text \<open>
  The accumulators of \<open>run\<close>: the \<open>passed\<close> names, the \<open>failed\<close> results and the world.
  \<open>record_result\<close> is the \<open>if (result.success) passed.push(...) else failed.push(result)\<close>
  that follows every \<open>runCommand\<close>.
\<close>

type_synonym 'w run_state = "string list \<times> check_result list \<times> 'w"

definition record_result :: "check_result \<times> 'w \<Rightarrow> string list \<Rightarrow> check_result list \<Rightarrow> 'w run_state" where
  "record_result rw ps fs =
     (case rw of (result, w') \<Rightarrow>
        if cr_success result then (ps @ [check result], fs, w') else (ps, fs @ [result], w'))"

definition run_builtin ::
  "'w venv \<Rightarrow> ValidationConfig \<Rightarrow> bool \<Rightarrow> string option \<Rightarrow> string \<Rightarrow> 'w run_state \<Rightarrow> 'w run_state"
  where
  "run_builtin env config flag command checkName st =
     (case st of (ps, fs, w) \<Rightarrow>
        (case command of
           None \<Rightarrow> st
         | Some c \<Rightarrow>
             if flag \<and> c \<noteq> []
             then record_result (runCommand env config w checkName c) ps fs
             else st))"

fun run_custom :: "'w venv \<Rightarrow> ValidationConfig \<Rightarrow> string list \<Rightarrow> 'w run_state \<Rightarrow> 'w run_state" where
  "run_custom env config [] st = st"
| "run_custom env config (command # rest) st =
     (case st of (ps, fs, w) \<Rightarrow>
        run_custom env config rest
          (record_result (runCommand env config w (''Custom: '' @ command) command) ps fs))"

definition run :: "'w venv \<Rightarrow> ValidationConfig \<Rightarrow> 'w \<Rightarrow> ValidationResult \<times> ValidationConfig \<times> 'w" where
  "run env config0 w0 =
     (let startTime = now env w0;
          config = detectCommands (readPackageJson env w0) config0;
          st1 = run_builtin env config (runTests config) (testCommand config) ''Tests'' ([], [], w0);
          st2 = run_builtin env config (runTypeCheck config) (typeCheckCommand config)
                  ''Type Check'' st1;
          st3 = run_builtin env config (runLinter config) (lintCommand config) ''Linter'' st2;
          st4 = (case customCommands config of
                   None \<Rightarrow> st3
                 | Some commands \<Rightarrow> run_custom env config commands st3)
      in case st4 of (ps, fs, w) \<Rightarrow>
           (\<lparr>vr_success = (length fs = 0), passed = ps, failed = fs,
             duration = now env w - startTime\<rparr>, config, w))"

text \<open>
  The checks a configuration asks for, as the specification counts them: each enabled
  built-in check that has a command after detection, then every custom command, each with
  the name it is reported under.
\<close>

definition builtin_check :: "bool \<Rightarrow> string option \<Rightarrow> string \<Rightarrow> (string \<times> string) list" where
  "builtin_check flag command checkName =
     (case command of
        None \<Rightarrow> []
      | Some c \<Rightarrow> if flag \<and> c \<noteq> [] then [(checkName, c)] else [])"

definition configured_checks :: "ValidationConfig \<Rightarrow> (string \<times> string) list" where
  "configured_checks config =
     builtin_check (runTests config) (testCommand config) ''Tests''
     @ builtin_check (runTypeCheck config) (typeCheckCommand config) ''Type Check''
     @ builtin_check (runLinter config) (lintCommand config) ''Linter''
     @ map (\<lambda>c. (''Custom: '' @ c, c)) (or_empty (customCommands config))"

text \<open>Running a list of named commands one after the other, each to its end.\<close>

fun run_all :: "'w venv \<Rightarrow> ValidationConfig \<Rightarrow> (string \<times> string) list \<Rightarrow> 'w \<Rightarrow> check_result list \<times> 'w"
  where
  "run_all env config [] w = ([], w)"
| "run_all env config ((name, command) # rest) w =
     (case runCommand env config w name command of
        (r, w') \<Rightarrow> (case run_all env config rest w' of (rs, w'') \<Rightarrow> (r # rs, w'')))"

text \<open>Scenario C: three checks configured, the type check fails.\<close>

definition scenarioC_env :: "unit venv" where
  "scenarioC_env =
     \<lparr> exec = (\<lambda>w command t.
                 if command = ''tsc --noEmit''
                 then (Threw (Some ''Command failed: tsc --noEmit'') (Some ''error TS2304'') None, w)
                 else (Completed ''ok'', w)),
       readPackageJson = (\<lambda>w. None),
       now = (\<lambda>w. 0) \<rparr>"

definition scenarioC_config :: ValidationConfig where
  "scenarioC_config =
     \<lparr> runTests = True, runTypeCheck = True, runLinter = True,
       testCommand = Some ''npm test'', typeCheckCommand = Some ''tsc --noEmit'',
       lintCommand = Some ''eslint .'', customCommands = None, timeout_ms = Some 60000 \<rparr>"

definition scenarioC_result :: ValidationResult where
  "scenarioC_result =
     \<lparr> vr_success = False, passed = [''Tests'', ''Linter''],
       failed = [\<lparr>cr_success = False, check = ''Type Check'',
                  cr_error = ''Command failed: tsc --noEmit'', cr_output = Some ''error TS2304''\<rparr>],
       duration = 0 \<rparr>"

section \<open>Backup system: \<open>src/safety/backup-system.ts\<close>\<close>

text \<open>
  The logger is an output channel: each call appends one entry. \<open>error_message\<close> stands
  for the text Node puts in \<open>error.message\<close>: one fixed wording per failed operation,
  where Node picks the error code by cause and puts the path in quotes. No branch of the
  code reads the wording.
\<close>

datatype log_entry =
    LogInfo string
  | LogWarn string
  | LogError string
  | LogSuccess string
  | LogDebug string

definition error_message :: "error \<Rightarrow> string" where
  "error_message e =
     (case e of
        ReadError p \<Rightarrow> ''ENOENT: no such file or directory, open '' @ p
      | WriteError p \<Rightarrow> ''EACCES: permission denied, open '' @ p
      | MkdirError p \<Rightarrow> ''EACCES: permission denied, mkdir '' @ p
      | TypeError \<Rightarrow> ''Cannot read properties of undefined''
      | OtherError m \<Rightarrow> m)"

text \<open>Decimal rendering of a number inside a template string.\<close>

definition digit_char :: "nat \<Rightarrow> char" where
  "digit_char d =
     (if d = 0 then CHR ''0'' else if d = 1 then CHR ''1'' else if d = 2 then CHR ''2''
      else if d = 3 then CHR ''3'' else if d = 4 then CHR ''4'' else if d = 5 then CHR ''5''
      else if d = 6 then CHR ''6'' else if d = 7 then CHR ''7'' else if d = 8 then CHR ''8''
      else CHR ''9'')"

function string_of_nat :: "nat \<Rightarrow> string" where
  "string_of_nat n = (if n < 10 then [digit_char n] else string_of_nat (n div 10) @ [digit_char (n mod 10)])"
  by pat_completeness auto
termination
  by (relation "measure id") auto

text \<open>
  POSIX \<open>path.basename\<close>, \<open>path.dirname\<close> and \<open>path.join(dir, name)\<close> for a normalised directory
  and a single segment: trailing separators are dropped, the segments \<open>.\<close> and the empty one
  leave the directory, \<open>..\<close> goes to its parent.
\<close>

definition strip_slashes :: "string \<Rightarrow> string" where
  "strip_slashes p = rev (dropWhile (\<lambda>c. c = CHR ''/'') (rev p))"

definition basename :: "string \<Rightarrow> string" where
  "basename p = rev (takeWhile (\<lambda>c. c \<noteq> CHR ''/'') (rev (strip_slashes p)))"

definition dirname :: "string \<Rightarrow> string" where
  "dirname p =
     (let q = strip_slashes p;
          d = strip_slashes (rev (dropWhile (\<lambda>c. c \<noteq> CHR ''/'') (rev q)))
      in if d = [] then (if startsWith p ''/'' then ''/'' else ''.'') else d)"

definition path_join :: "string \<Rightarrow> string \<Rightarrow> string" where
  "path_join dir name =
     (if name = [] \<or> name = ''.'' then dir
      else if name = ''..'' then dirname dir
      else dir @ ''/'' @ name)"

record BackupHandle =
  bh_id :: string
  timestamp :: nat
  backupDir :: string
  bh_files :: "(string \<times> string) list"

text \<open>
  \<open>handle.files\<close> is a \<open>Map\<close>: \<open>set\<close> on a present key replaces its value in place, on a
  new key appends the entry; iteration is in insertion order.
\<close>

fun map_set :: "'k \<Rightarrow> 'v \<Rightarrow> ('k \<times> 'v) list \<Rightarrow> ('k \<times> 'v) list" where
  "map_set k v [] = [(k, v)]"
| "map_set k v ((k', v') # rest) =
     (if k = k' then (k', v) # rest else (k', v') # map_set k v rest)"

text \<open>
  One round of the loop of \<open>createBackup\<close>. Whatever fails inside the \<open>try\<close> (reading the
  source, creating the directory, writing the copy) is caught: the file is left out of the
  handle and a warning is logged.
\<close>

definition backup_one ::
  "string \<Rightarrow> string \<Rightarrow> fsys \<times> (string \<times> string) list \<times> log_entry list
     \<Rightarrow> fsys \<times> (string \<times> string) list \<times> log_entry list" where
  "backup_one dir filePath st =
     (case st of (fs, files, logs) \<Rightarrow>
        (let failed = (\<lambda>e. (fs, files,
                         logs @ [LogWarn (''Failed to backup '' @ filePath @ '': '' @ error_message e)]))
         in case readFile fs filePath of
              Inl e \<Rightarrow> failed e
            | Inr content \<Rightarrow>
                (let fileName = basename filePath;
                     backupPath = path_join dir fileName
                 in case mkdir fs (dirname backupPath) of
                      Inl e \<Rightarrow> failed e
                    | Inr _ \<Rightarrow>
                        (case writeFile fs backupPath content of
                           Inl e \<Rightarrow> failed e
                         | Inr fs' \<Rightarrow> (fs', map_set filePath backupPath files, logs)))))"

text \<open>
  \<open>createBackup\<close>. The random identifier and the clock are parameters, \<open>tempDir\<close> is the
  directory of the backup system. Only the first \<open>mkdir\<close> is outside the \<open>try\<close>.
  (The registry \<open>this.backups\<close> is read by \<open>cleanupOldBackups\<close> alone and is left out.)
\<close>

definition createBackup ::
  "string \<Rightarrow> string \<Rightarrow> nat \<Rightarrow> fsys \<Rightarrow> string list \<Rightarrow> error + (BackupHandle \<times> fsys \<times> log_entry list)"
  where
  "createBackup tempDir backupId now_ms fs filePaths =
     (let dir = path_join tempDir (''backup-'' @ backupId)
      in case mkdir fs dir of
           Inl e \<Rightarrow> Inl e
         | Inr _ \<Rightarrow>
             (case foldl (\<lambda>st filePath. backup_one dir filePath st) (fs, [], []) filePaths of
                (fs', files, logs) \<Rightarrow>
                  Inr (\<lparr>bh_id = backupId, timestamp = now_ms, backupDir = dir, bh_files = files\<rparr>,
                       fs',
                       logs @ [LogInfo (''Created backup '' @ backupId @ '' with ''
                                        @ string_of_nat (length files) @ '' files'')])))"

text \<open>
  One round of the loop of \<open>restore\<close> on an entry of the handle: the state is the file
  system, \<open>restoredCount\<close> and \<open>errors\<close>.
\<close>

definition restore_one ::
  "string \<times> string \<Rightarrow> fsys \<times> nat \<times> string list \<Rightarrow> fsys \<times> nat \<times> string list" where
  "restore_one entry st =
     (case entry of (originalPath, backupPath) \<Rightarrow>
      case st of (fs, restoredCount, errors) \<Rightarrow>
        (case readFile fs backupPath of
           Inl e \<Rightarrow> (fs, restoredCount, errors @ [originalPath @ '': '' @ error_message e])
         | Inr content \<Rightarrow>
             (case writeFile fs originalPath content of
                Inl e \<Rightarrow> (fs, restoredCount, errors @ [originalPath @ '': '' @ error_message e])
              | Inr fs' \<Rightarrow> (fs', restoredCount + 1, errors))))"

definition restore_loop :: "BackupHandle \<Rightarrow> fsys \<Rightarrow> fsys \<times> nat \<times> string list" where
  "restore_loop handle fs = foldl (\<lambda>st entry. restore_one entry st) (fs, 0, []) (bh_files handle)"

text \<open>
  \<open>restore\<close> returns \<open>Promise<void>\<close>: the value handed to the caller is \<open>()\<close>; the effects
  are the new file system and the log.
\<close>

definition restore :: "BackupHandle \<Rightarrow> fsys \<Rightarrow> unit \<times> fsys \<times> log_entry list" where
  "restore handle fs =
     (case restore_loop handle fs of
        (fs', restoredCount, errors) \<Rightarrow>
          ((), fs',
           (if length errors > 0
            then LogError (''Failed to restore '' @ string_of_nat (length errors) @ '' files:'')
                 # map (\<lambda>err. LogError (''  - '' @ err)) errors
            else [])
           @ [LogSuccess (''Restored '' @ string_of_nat restoredCount @ '' files from backup ''
                          @ bh_id handle)]))"

text \<open>
  \<open>cleanup\<close>: \<open>fs.rm(backupDir, { recursive: true, force: true })\<close> removes the directory and
  all below it; a failure is caught and logged.
\<close>

definition cleanup :: "BackupHandle \<Rightarrow> fsys \<Rightarrow> fsys \<times> log_entry list" where
  "cleanup handle fs =
     (if backupDir handle \<in> unwritable fs
      then (fs, [LogWarn (''Failed to cleanup backup '' @ bh_id handle @ '': ''
                          @ error_message (WriteError (backupDir handle)))])
      else (fs\<lparr>contents := (\<lambda>p. if p = backupDir handle \<or> startsWith p (backupDir handle @ ''/'')
                                 then None else contents fs p)\<rparr>,
            [LogDebug (''Cleaned up backup '' @ bh_id handle)]))"

text \<open>\<open>verifyBackup\<close>: every recorded backup path is accessible.\<close>

definition verifyBackup :: "BackupHandle \<Rightarrow> fsys \<Rightarrow> bool" where
  "verifyBackup handle fs = list_all (\<lambda>(originalPath, backupPath). contents fs backupPath \<noteq> None) (bh_files handle)"

text \<open>
  For the statements about \<open>restore\<close>: an entry can be restored in a file system when its
  backup can be read and its original can be written; otherwise the loop records the text
  of the first operation that fails.
\<close>

definition restorable :: "fsys \<Rightarrow> string \<times> string \<Rightarrow> bool" where
  "restorable fs entry = (contents fs (snd entry) \<noteq> None \<and> fst entry \<notin> unwritable fs)"

definition restore_error_text :: "fsys \<Rightarrow> string \<times> string \<Rightarrow> string" where
  "restore_error_text fs entry =
     fst entry @ '': '' @ error_message (if contents fs (snd entry) = None
                                         then ReadError (snd entry) else WriteError (fst entry))"

text \<open>
  A handle of two files of which the second backup has gone missing, and the same with
  both backups present.
\<close>

definition scenarioR_handle :: BackupHandle where
  "scenarioR_handle =
     \<lparr> bh_id = ''ab12'', timestamp = 0, backupDir = ''/tmp/vb/backup-ab12'',
       bh_files = [(''src/a.js'', ''/tmp/vb/backup-ab12/a.js''),
                   (''src/b.js'', ''/tmp/vb/backup-ab12/b.js'')] \<rparr>"

definition scenarioR_fs :: fsys where
  "scenarioR_fs =
     \<lparr> contents = [''src/a.js'' \<mapsto> ''new a'', ''src/b.js'' \<mapsto> ''new b'',
                    ''/tmp/vb/backup-ab12/a.js'' \<mapsto> ''old a''],
       unwritable = {} \<rparr>"

definition scenarioR_fs_complete :: fsys where
  "scenarioR_fs_complete =
     \<lparr> contents = [''src/a.js'' \<mapsto> ''new a'', ''src/b.js'' \<mapsto> ''new b'',
                    ''/tmp/vb/backup-ab12/a.js'' \<mapsto> ''old a'',
                    ''/tmp/vb/backup-ab12/b.js'' \<mapsto> ''old b''],
       unwritable = {} \<rparr>"

definition scenarioR_fs_after :: fsys where
  "scenarioR_fs_after = scenarioR_fs\<lparr>contents := (contents scenarioR_fs)(''src/a.js'' \<mapsto> ''old a'')\<rparr>"

definition scenarioR_logs :: "log_entry list" where
  "scenarioR_logs =
     [LogError ''Failed to restore 1 files:'',
      LogError ''  - src/b.js: ENOENT: no such file or directory, open /tmp/vb/backup-ab12/b.js'',
      LogSuccess ''Restored 1 files from backup ab12'']"

text \<open>Scenario D: two targets with one basename, in different directories.\<close>

definition scenarioD_fs :: fsys where
  "scenarioD_fs =
     \<lparr> contents = [''a/util.js'' \<mapsto> ''export const a = 1;'',
                    ''b/util.js'' \<mapsto> ''export const b = 2;''],
       unwritable = {} \<rparr>"

text \<open>After the backup both sources are rewritten, as the fixes would.\<close>

definition scenarioD_modify :: "fsys \<Rightarrow> fsys" where
  "scenarioD_modify fs =
     fs\<lparr>contents := (contents fs)(''a/util.js'' \<mapsto> ''changed a'', ''b/util.js'' \<mapsto> ''changed b'')\<rparr>"

section \<open>Console-call detector and change builder: \<open>src/fixers/console-log-fixer.ts\<close>\<close>

record ConsoleLogFix =
  f_file :: string
  f_line :: int
  f_column :: nat
  code :: string
  isInTestFile :: bool
  confidence :: real

text \<open>
  Confidences are IEEE doubles in the source. The only values the detector computes are
  0.9, 0.95, 0.99 and their products with 0.8 and 0.9 (0.76, 0.792, 0.855, 0.891, 0.684,
  0.7128); none of the products is within 0.009 of the threshold 0.9, so the comparisons
  below come out as in the source.
\<close>

text \<open>
  What Babel hands to the visitor for one call expression: whether the callee is a member
  expression of the identifier \<open>console\<close> with an identifier property, the name of that
  property, the start of \<open>loc\<close> (line, column) if any, the generated code, and the three
  facts \<open>calculateConfidence\<close> reads.
\<close>

record CallExpression =
  callee_console_member :: bool
  property_name :: string
  loc_start :: "(nat \<times> nat) option"
  generated_code :: string
  args_all_string_literals :: bool
  parent_is_sequence :: bool
  inside_conditional :: bool

text \<open>
  The two engines the fixer relies on: \<open>parse\<close> followed by \<open>traverse\<close> yields the call
  expressions in visiting order, or raises (\<open>None\<close>); \<open>new RegExp(pattern).test(line)\<close> yields
  a truth value, or raises on a malformed pattern (\<open>None\<close>).
\<close>

record engines =
  parse_calls :: "string \<Rightarrow> CallExpression list option"
  regexp_test :: "string \<Rightarrow> string \<Rightarrow> bool option"

text \<open>
  \<open>testFilePatterns\<close>: \<open>/\.test\.[jt]sx?$/\<close>, \<open>/\.spec\.[jt]sx?$/\<close>, \<open>/__tests__/\<close>,
  \<open>/test\//\<close>, \<open>/tests\//\<close>.
\<close>

definition ends_with_script_ext :: "string \<Rightarrow> string \<Rightarrow> bool" where
  "ends_with_script_ext filePath tag =
     (endsWith filePath (tag @ ''js'') \<or> endsWith filePath (tag @ ''ts'')
      \<or> endsWith filePath (tag @ ''jsx'') \<or> endsWith filePath (tag @ ''tsx''))"

definition isTestFile :: "string \<Rightarrow> bool" where
  "isTestFile filePath =
     (ends_with_script_ext filePath ''.test.''
      \<or> ends_with_script_ext filePath ''.spec.''
      \<or> str_includes filePath ''__tests__''
      \<or> str_includes filePath ''test/''
      \<or> str_includes filePath ''tests/'')"

text \<open>
  \<open>shouldPreserve\<close>. With a whitelist its comment markers are looked for as substrings,
  without one the three default markers; then the whitelist patterns are tried in order as
  regular expressions, the first malformed one reached raising.
\<close>

definition defaultPreservePatterns :: "string list" where
  "defaultPreservePatterns = [''@vibesweep-ignore'', ''@preserve'', ''eslint-disable.*console'']"

fun test_patterns :: "engines \<Rightarrow> string list \<Rightarrow> string \<Rightarrow> error + bool" where
  "test_patterns eng [] l = Inr False"
| "test_patterns eng (pattern # rest) l =
     (case regexp_test eng pattern l of
        None \<Rightarrow> Inl (OtherError (''Invalid regular expression: '' @ pattern))
      | Some True \<Rightarrow> Inr True
      | Some False \<Rightarrow> test_patterns eng rest l)"

definition shouldPreserve :: "engines \<Rightarrow> WhitelistConfig option \<Rightarrow> string \<Rightarrow> error + bool" where
  "shouldPreserve eng wl l =
     (case wl of
        Some w \<Rightarrow>
          if list_ex (\<lambda>comment. str_includes l comment) (wl_comments w) then Inr True
          else test_patterns eng (wl_patterns w) l
      | None \<Rightarrow>
          if list_ex (\<lambda>pattern. str_includes l pattern) defaultPreservePatterns then Inr True
          else Inr False)"

definition calculateConfidence :: "CallExpression \<Rightarrow> real" where
  "calculateConfidence node =
     (let c0 = 0.95;
          c1 = (if args_all_string_literals node then 0.99 else c0);
          c2 = (if parent_is_sequence node then c1 * 0.8 else c1);
          c3 = (if inside_conditional node then c2 * 0.9 else c2)
      in c3)"

text \<open>
  The \<open>CallExpression\<close> visitor on one node; \<open>None\<close> is a raise inside the visitor (reading
  a line outside the file gives \<open>undefined\<close>, on which \<open>includes\<close> raises; a malformed
  whitelist pattern raises). Babel's locations lie inside the text it parsed, so the first
  case does not arise from a real parse; the marker lists the fixer is built with are
  never empty.
\<close>

definition visit_call ::
  "engines \<Rightarrow> WhitelistConfig option \<Rightarrow> string \<Rightarrow> string list \<Rightarrow> CallExpression
     \<Rightarrow> ConsoleLogFix list \<Rightarrow> ConsoleLogFix list option" where
  "visit_call eng wl filePath lines node fixes =
     (if callee_console_member node \<and> property_name node \<in> {''log'', ''debug'', ''info''}
      then (case loc_start node of
              None \<Rightarrow> Some fixes
            | Some (l, col) \<Rightarrow>
                if l = 0 \<or> l > length lines then None
                else (let ln = lines ! (l - 1);
                          previousLine = (if l > 1 then lines ! (l - 2) else [])
                      in case shouldPreserve eng wl ln of
                           Inl e \<Rightarrow> None
                         | Inr True \<Rightarrow> Some fixes
                         | Inr False \<Rightarrow>
                             (case shouldPreserve eng wl previousLine of
                                Inl e \<Rightarrow> None
                              | Inr True \<Rightarrow> Some fixes
                              | Inr False \<Rightarrow>
                                  Some (fixes @ [\<lparr> f_file = filePath, f_line = int l,
                                                   f_column = col, code = generated_code node,
                                                   isInTestFile = False,
                                                   confidence = calculateConfidence node \<rparr>]))))
      else Some fixes)"

fun traverse ::
  "engines \<Rightarrow> WhitelistConfig option \<Rightarrow> string \<Rightarrow> string list \<Rightarrow> CallExpression list
     \<Rightarrow> ConsoleLogFix list \<Rightarrow> ConsoleLogFix list option" where
  "traverse eng wl filePath lines [] fixes = Some fixes"
| "traverse eng wl filePath lines (node # rest) fixes =
     (case visit_call eng wl filePath lines node fixes of
        None \<Rightarrow> None
      | Some fixes' \<Rightarrow> traverse eng wl filePath lines rest fixes')"

text \<open>
  \<open>line.match(/console\.m\s*\(/)\<close> for a method name \<open>m\<close>: the leftmost occurrence, as the
  index and the matched text.
\<close>

definition match_call_here :: "string \<Rightarrow> string \<Rightarrow> string option" where
  "match_call_here m s =
     (if startsWith s (''console.'' @ m)
      then (let rest = drop (length (''console.'' @ m)) s;
                ws = takeWhile is_ws rest
            in if startsWith (dropWhile is_ws rest) ''(''
               then Some (''console.'' @ m @ ws @ ''('')
               else None)
      else None)"

fun match_call :: "string \<Rightarrow> string \<Rightarrow> nat \<Rightarrow> (nat \<times> string) option" where
  "match_call m [] i = None"
| "match_call m (c # cs) i =
     (case match_call_here m (c # cs) of
        Some text \<Rightarrow> Some (i, text)
      | None \<Rightarrow> match_call m cs (i + 1))"

definition safePatterns :: "string list" where
  "safePatterns = [''log'', ''debug'', ''info'']"

text \<open>The body of \<open>lines.forEach\<close> in \<open>findWithRegex\<close>: the inner loop over the patterns.\<close>

fun regex_line ::
  "engines \<Rightarrow> WhitelistConfig option \<Rightarrow> string \<Rightarrow> string \<Rightarrow> nat \<Rightarrow> string list
     \<Rightarrow> ConsoleLogFix list \<Rightarrow> error + ConsoleLogFix list" where
  "regex_line eng wl filePath l index [] fixes = Inr fixes"
| "regex_line eng wl filePath l index (m # rest) fixes =
     (case match_call m l 0 of
        None \<Rightarrow> regex_line eng wl filePath l index rest fixes
      | Some (col, text) \<Rightarrow>
          (case shouldPreserve eng wl l of
             Inl e \<Rightarrow> Inl e
           | Inr True \<Rightarrow> regex_line eng wl filePath l index rest fixes
           | Inr False \<Rightarrow>
               regex_line eng wl filePath l index rest
                 (fixes @ [\<lparr> f_file = filePath, f_line = int index + 1, f_column = col,
                             code = text, isInTestFile = False, confidence = 0.9 \<rparr>])))"

fun regex_lines ::
  "engines \<Rightarrow> WhitelistConfig option \<Rightarrow> string \<Rightarrow> string list \<Rightarrow> nat
     \<Rightarrow> ConsoleLogFix list \<Rightarrow> error + ConsoleLogFix list" where
  "regex_lines eng wl filePath [] index fixes = Inr fixes"
| "regex_lines eng wl filePath (l # rest) index fixes =
     (case regex_line eng wl filePath l index safePatterns fixes of
        Inl e \<Rightarrow> Inl e
      | Inr fixes' \<Rightarrow> regex_lines eng wl filePath rest (index + 1) fixes')"

definition findWithRegex ::
  "engines \<Rightarrow> WhitelistConfig option \<Rightarrow> string \<Rightarrow> string \<Rightarrow> error + ConsoleLogFix list" where
  "findWithRegex eng wl filePath content = regex_lines eng wl filePath (split_lines content) 0 []"

definition findConsoleLogStatements ::
  "engines \<Rightarrow> WhitelistConfig option \<Rightarrow> fsys \<Rightarrow> string \<Rightarrow> error + ConsoleLogFix list" where
  "findConsoleLogStatements eng wl fs filePath =
     (case readFile fs filePath of
        Inl e \<Rightarrow> Inl e
      | Inr content \<Rightarrow>
          (let lines = split_lines content
           in if isTestFile filePath then Inr []
              else (case parse_calls eng content of
                      None \<Rightarrow> findWithRegex eng wl filePath content
                    | Some nodes \<Rightarrow>
                        (case traverse eng wl filePath lines nodes [] of
                           None \<Rightarrow> findWithRegex eng wl filePath content
                         | Some fixes \<Rightarrow> Inr (filter (\<lambda>fix. confidence fix \<ge> 0.9) fixes)))))"

text \<open>
  \<open>line.replace(/\s*console\.(log|debug|info)\([^)]*\);\s*/, '  ')\<close>: the leftmost match is
  replaced by two spaces; without a match the line is unchanged. \<open>match_stmt_here\<close> gives what
  follows a match that starts at the head of the string.
\<close>

definition match_method :: "string \<Rightarrow> string option" where
  "match_method s =
     (if startsWith s ''log'' then Some (drop 3 s)
      else if startsWith s ''debug'' then Some (drop 5 s)
      else if startsWith s ''info'' then Some (drop 4 s)
      else None)"

definition match_stmt_here :: "string \<Rightarrow> string option" where
  "match_stmt_here s =
     (let s1 = dropWhile is_ws s
      in if startsWith s1 ''console.''
         then (case match_method (drop 8 s1) of
                 None \<Rightarrow> None
               | Some s2 \<Rightarrow>
                   if startsWith s2 ''(''
                   then (let s3 = dropWhile (\<lambda>c. c \<noteq> CHR '')'') (drop 1 s2)
                         in if startsWith s3 '');'' then Some (dropWhile is_ws (drop 2 s3))
                            else None)
                   else None)
         else None)"

fun replace_stmt :: "string \<Rightarrow> string" where
  "replace_stmt [] = []"
| "replace_stmt (c # cs) =
     (case match_stmt_here (c # cs) of
        Some rest \<Rightarrow> ''  '' @ rest
      | None \<Rightarrow> c # replace_stmt cs)"

text \<open>The method name put into the description of a single-line edit.\<close>

definition method_of :: "ConsoleLogFix \<Rightarrow> string" where
  "method_of fix =
     (if str_includes (code fix) ''debug'' then ''debug''
      else if str_includes (code fix) ''info'' then ''info''
      else ''log'')"

text \<open>
  The forward scan for the end of a multi-line statement: the first line after \<open>lineIndex\<close>
  that contains \<open>);\<close>, or \<open>lineIndex\<close> itself when there is none.
\<close>

definition find_endLine :: "string list \<Rightarrow> nat \<Rightarrow> nat" where
  "find_endLine lines lineIndex =
     (case filter (\<lambda>i. str_includes (lines ! i) '');'') [lineIndex + 1 ..< length lines] of
        [] \<Rightarrow> lineIndex
      | i # _ \<Rightarrow> i)"

text \<open>
  One round of the loop of \<open>removeConsoleLogs\<close>; the state is \<open>processedLines\<close> and
  \<open>changes\<close>. A fix whose line is outside the file reads \<open>undefined\<close>, on which \<open>trim\<close> raises.
\<close>

definition remove_one ::
  "string \<Rightarrow> string list \<Rightarrow> ConsoleLogFix \<Rightarrow> nat set \<times> Change list \<Rightarrow> error + (nat set \<times> Change list)"
  where
  "remove_one filePath lines fix st =
     (case st of (processedLines, changes) \<Rightarrow>
        if f_line fix - 1 \<ge> 0 \<and> nat (f_line fix - 1) \<in> processedLines then Inr st
        else if f_line fix - 1 < 0 \<or> nat (f_line fix - 1) \<ge> length lines then Inl TypeError
        else
          (let lineIndex = nat (f_line fix - 1);
               ln = lines ! lineIndex;
               endLine = (if \<not> endsWith (trim ln) '');'' \<and> \<not> endsWith (trim ln) '')''
                          then find_endLine lines lineIndex else lineIndex);
               processed = processedLines \<union> {lineIndex .. endLine}
           in if lineIndex = endLine
              then (let trimmedLine = trim ln
                    in if startsWith trimmedLine ''console.''
                       then Inr (processed, changes @
                              [\<lparr> c_file = filePath, line = f_line fix, ctype = Remove,
                                 oldContent = Some ln, newContent = None,
                                 description = ''Remove console.'' @ method_of fix @ '' statement'' \<rparr>])
                       else Inr (processed, changes @
                              [\<lparr> c_file = filePath, line = f_line fix, ctype = Replace,
                                 oldContent = Some ln, newContent = Some (replace_stmt ln),
                                 description = ''Remove console.'' @ method_of fix @ '' from line'' \<rparr>]))
              else Inr (processed, changes @
                     map (\<lambda>i. \<lparr> c_file = filePath, line = int i + 1, ctype = Remove,
                                 oldContent = Some (lines ! i), newContent = None,
                                 description = ''Remove multi-line console.log statement'' \<rparr>)
                         [lineIndex ..< endLine + 1])))"

fun remove_loop ::
  "string \<Rightarrow> string list \<Rightarrow> ConsoleLogFix list \<Rightarrow> nat set \<times> Change list \<Rightarrow> error + Change list"
  where
  "remove_loop filePath lines [] st = Inr (snd st)"
| "remove_loop filePath lines (fix # rest) st =
     (case remove_one filePath lines fix st of
        Inl e \<Rightarrow> Inl e
      | Inr st' \<Rightarrow> remove_loop filePath lines rest st')"

definition removeConsoleLogs :: "fsys \<Rightarrow> string \<Rightarrow> ConsoleLogFix list \<Rightarrow> error + Change list" where
  "removeConsoleLogs fs filePath fixes =
     (case readFile fs filePath of
        Inl e \<Rightarrow> Inl e
      | Inr content \<Rightarrow>
          (let lines = split_lines content;
               sortedFixes = sort_key (\<lambda>fix. - f_line fix) fixes
           in remove_loop filePath lines sortedFixes ({}, [])))"

text \<open>
  Inputs for the statements about the detector and the builder. In all of them the regular
  expression engine finds no match: none of the default whitelist patterns occurs in a line
  or a path used below.
\<close>

definition no_match :: "string \<Rightarrow> string \<Rightarrow> bool option" where
  "no_match pattern l = Some False"

text \<open>An absent \<open>.vibesweeprc.json\<close>, and one that raises the minimum confidence of the
  console category to 0.97.\<close>

definition empty_user :: SafeFixUserConfig where
  "empty_user = \<lparr> u_safety = None, u_fixes = None, u_validation = None, u_whitelist = None \<rparr>"

definition scenarioM_user :: SafeFixUserConfig where
  "scenarioM_user =
     empty_user\<lparr> u_fixes := Some \<lparr> uf_levels = None,
         uf_categories = Some \<lparr> uc_console_logs =
                                   Some \<lparr> enabled = True, excludePatterns = None,
                                          minConfidence = Some 0.97 \<rparr>,
                                 uc_unused_imports = None, uc_dead_code = None \<rparr> \<rparr> \<rparr>"

text \<open>
  A file with a statement call \<open>console.log(x)\<close> on line 1 and, on line 2, a call inside a
  sequence expression.
\<close>

definition scenarioM_fs :: fsys where
  "scenarioM_fs = \<lparr> contents = [''src/app.js'' \<mapsto> ''console.log(x);'' @ [CHR 0x0A] @ ''f(), console.log(y);''],
                     unwritable = {} \<rparr>"

definition scenarioM_engines :: engines where
  "scenarioM_engines =
     \<lparr> parse_calls = (\<lambda>content.
          Some [\<lparr> callee_console_member = True, property_name = ''log'', loc_start = Some (1, 0),
                   generated_code = ''console.log(x)'', args_all_string_literals = False,
                   parent_is_sequence = False, inside_conditional = False \<rparr>,
                \<lparr> callee_console_member = False, property_name = [], loc_start = Some (2, 0),
                   generated_code = ''f()'', args_all_string_literals = True,
                   parent_is_sequence = True, inside_conditional = False \<rparr>,
                \<lparr> callee_console_member = True, property_name = ''log'', loc_start = Some (2, 5),
                   generated_code = ''console.log(y)'', args_all_string_literals = False,
                   parent_is_sequence = True, inside_conditional = False \<rparr>]),
       regexp_test = no_match \<rparr>"

definition scenarioM_fix :: ConsoleLogFix where
  "scenarioM_fix = \<lparr> f_file = ''src/app.js'', f_line = 1, f_column = 0, code = ''console.log(x)'',
                      isInTestFile = False, confidence = 0.95 \<rparr>"

text \<open>
  Two files that start with a preserve marker followed by a console call; the second one
  ends in text the parser rejects.
\<close>

definition scenarioP_ok :: string where
  "scenarioP_ok = ''// @vibesweep-ignore'' @ [CHR 0x0A] @ ''console.log(1);''"

definition scenarioP_bad :: string where
  "scenarioP_bad = ''// @vibesweep-ignore'' @ [CHR 0x0A] @ ''console.log(1);'' @ [CHR 0x0A] @ ''function (''"

definition scenarioP_fs :: fsys where
  "scenarioP_fs = \<lparr> contents = [''src/ok.js'' \<mapsto> scenarioP_ok, ''src/bad.js'' \<mapsto> scenarioP_bad],
                     unwritable = {} \<rparr>"

definition scenarioP_engines :: engines where
  "scenarioP_engines =
     \<lparr> parse_calls = (\<lambda>content.
          if content = scenarioP_ok
          then Some [\<lparr> callee_console_member = True, property_name = ''log'',
                        loc_start = Some (2, 0), generated_code = ''console.log(1)'',
                        args_all_string_literals = False, parent_is_sequence = False,
                        inside_conditional = False \<rparr>]
          else None),
       regexp_test = no_match \<rparr>"

text \<open>
  Scenario B and two neighbours: a console call followed by other code on its line, the
  line of Scenario B alone in its file, and the same line followed by a line that contains
  \<open>);\<close>.
\<close>

definition scenarioB_line :: string where
  "scenarioB_line = ''const x = 5; console.log('value:', x); const y = 10;''"

definition scenarioB_fs :: fsys where
  "scenarioB_fs =
     \<lparr> contents = [''src/a.js'' \<mapsto> ''console.log('a'); doWork();'',
                    ''src/b.js'' \<mapsto> scenarioB_line,
                    ''src/c.js'' \<mapsto> scenarioB_line @ [CHR 0x0A] @ ''done();''],
       unwritable = {} \<rparr>"

definition scenarioB_fix :: "string \<Rightarrow> string \<Rightarrow> nat \<Rightarrow> ConsoleLogFix" where
  "scenarioB_fix filePath text col =
     \<lparr> f_file = filePath, f_line = 1, f_column = col, code = text, isInTestFile = False,
       confidence = 0.95 \<rparr>"

section \<open>The transaction: \<open>src/safety/safe-fixer.ts\<close>\<close>

record FixTypes =
  consoleLogs :: bool
  debuggerStatements :: bool
  deadCode :: bool

record SafeFixConfig =
  projectRoot :: string
  dryRun :: bool
  autoConfirm :: bool
  maxFilesPerRun :: int
  requireGitClean :: bool
  requireBackup :: bool
  validationCfg :: ValidationConfig
  fixTypes :: FixTypes

record SafeFixResult =
  success :: bool
  filesModified :: nat
  changesApplied :: nat
  backupId :: "string option"
  errors :: "string list"

datatype UserDecision = Accept | Reject | Partial | Skip

text \<open>
  The calls the transaction makes to its collaborators, in the order it makes them. The
  trace is what an observer of the run sees; nothing in the run reads it.
  \<open>ValidationRun b\<close> is the run of the validation suite after the writes (phase 6), with
  its \<open>success\<close>; the baseline run of the pre-flight checks is part of \<open>PreFlightDone\<close>.
\<close>

datatype action =
    PreFlightDone
  | BackupCreated string
  | DryRunSummary
  | FileWritten string
  | ValidationRun bool
  | RestoreCalled
  | CleanupCalled
  | CommitAttempted

datatype file_action = Yes | No | Individual

text \<open>
  What lies outside the transaction: the commands of the validation suite, the parser and
  the regular expression engine, git, the content of \<open>.vibesweeprc.json\<close> as \<open>load\<close> returns
  it (the empty configuration when the file is absent or unreadable), the operator's answers
  to the prompts, the random identifier and the clock.
\<close>

record run_env =
  suite_env :: "fsys venv"
  fixer_engines :: engines
  loadedConfig :: SafeFixUserConfig
  isGitRepository :: bool
  checkGitStatus :: "error + bool"
  createBackupBranch :: "error + string"
  continueAnyway :: bool
  showInteractive :: UserDecision
  fileAnswer :: "string \<Rightarrow> file_action"
  includeAnswer :: "Change \<Rightarrow> bool"
  commitAnswer :: bool
  tempDir :: string
  randomId :: string
  clock :: nat

text \<open>\<open>new Set(xs)\<close> spread back to an array: first occurrences, in order.\<close>

definition uniq :: "'a list \<Rightarrow> 'a list" where
  "uniq xs = foldl (\<lambda>acc x. if x \<in> set acc then acc else acc @ [x]) [] xs"

definition getChangeType :: "Change \<Rightarrow> string" where
  "getChangeType change =
     (if str_includes (description change) ''console.'' then ''console.log''
      else if str_includes (description change) ''debugger'' then ''debugger''
      else ''other'')"

record Summary =
  totalFiles :: nat
  totalChanges :: nat
  changesByType :: "(string \<times> nat) list"

definition calculateSummary :: "Change list \<Rightarrow> Summary" where
  "calculateSummary changes =
     \<lparr> totalFiles = length (uniq (map c_file changes)),
       totalChanges = length changes,
       changesByType =
         foldl (\<lambda>m change.
                  map_set (getChangeType change)
                    ((case map_of m (getChangeType change) of None \<Rightarrow> 0 | Some n \<Rightarrow> n) + 1) m)
               [] changes \<rparr>"

text \<open>
  \<open>performPreFlightChecks\<close>. It raises when the tree is dirty, when git or the backup
  directory fail, and when the baseline validation is red and the operator does not
  continue. The validation suite keeps the commands it detected, and its commands may have
  changed the world, also when the checks end with a raise.
  (\<open>this.config.validation\<close> is an object, hence truthy, in every configuration.)
\<close>

definition performPreFlightChecks ::
  "run_env \<Rightarrow> SafeFixConfig \<Rightarrow> ValidationConfig \<Rightarrow> fsys \<Rightarrow> error option \<times> ValidationConfig \<times> fsys"
  where
  "performPreFlightChecks env config suite fs =
     (let git =
            (if requireGitClean config \<and> isGitRepository env
             then (case checkGitStatus env of
                     Inl e \<Rightarrow> Some (OtherError (''Failed to check git status: '' @ error_message e))
                   | Inr isClean \<Rightarrow>
                       if \<not> isClean
                       then Some (OtherError
                              (''Working tree is not clean. Please commit or stash your changes before running fixes.''
                               @ [CHR 0x0A] @ ''Run '' @ [CHR 0x22] @ ''git status'' @ [CHR 0x22]
                               @ '' to see uncommitted changes.''))
                       else (case createBackupBranch env of
                               Inl e \<Rightarrow> Some (OtherError (''Failed to create backup branch: ''
                                                           @ error_message e))
                             | Inr branch \<Rightarrow> None))
             else None)
      in case git of
           Some e \<Rightarrow> (Some e, suite, fs)
         | None \<Rightarrow>
             (case mkdir fs (tempDir env) of
                Inl e \<Rightarrow> (Some e, suite, fs)
              | Inr _ \<Rightarrow>
                  (case run (suite_env env) suite fs of
                     (validationResult, suite', fs') \<Rightarrow>
                       if \<not> vr_success validationResult \<and> \<not> autoConfirm config
                          \<and> \<not> continueAnyway env
                       then (Some (OtherError ''Aborted due to failing validation checks''), suite', fs')
                       else (None, suite', fs'))))"

text \<open>
  \<open>SafeFixConfigLoader.shouldSkipFile\<close>: each whitelist glob is rewritten by three
  successive replacements (\<open>**\<close> by \<open>.*\<close>, then every \<open>*\<close> by \<open>[^/]*\<close>, then every \<open>?\<close> by
  \<open>.\<close>) and tested as a regular expression; \<open>some\<close> stops at the first match.
\<close>

fun replace_double_star :: "string \<Rightarrow> string" where
  "replace_double_star (a # b # cs) =
     (if a = CHR ''*'' \<and> b = CHR ''*'' then ''.*'' @ replace_double_star cs
      else a # replace_double_star (b # cs))"
| "replace_double_star cs = cs"

definition replace_char :: "char \<Rightarrow> string \<Rightarrow> string \<Rightarrow> string" where
  "replace_char x rep s = concat (map (\<lambda>c. if c = x then rep else [c]) s)"

definition glob_to_regex :: "string \<Rightarrow> string" where
  "glob_to_regex pattern =
     replace_char (CHR ''?'') ''.'' (replace_char (CHR ''*'') ''[^/]*'' (replace_double_star pattern))"

fun some_glob_matches :: "engines \<Rightarrow> string list \<Rightarrow> string \<Rightarrow> error + bool" where
  "some_glob_matches eng [] filePath = Inr False"
| "some_glob_matches eng (pattern # rest) filePath =
     (case regexp_test eng (glob_to_regex pattern) filePath of
        None \<Rightarrow> Inl (OtherError (''Invalid regular expression: '' @ glob_to_regex pattern))
      | Some True \<Rightarrow> Inr True
      | Some False \<Rightarrow> some_glob_matches eng rest filePath)"

definition shouldSkipFile :: "engines \<Rightarrow> string \<Rightarrow> WhitelistConfig \<Rightarrow> error + bool" where
  "shouldSkipFile eng filePath wl = some_glob_matches eng (wl_files wl) filePath"

text \<open>\<open>xs.slice(0, n)\<close>: a negative \<open>n\<close> counts from the end.\<close>

definition slice0 :: "int \<Rightarrow> 'a list \<Rightarrow> 'a list" where
  "slice0 n xs = (if n < 0 then take (nat (int (length xs) + n)) xs else take (nat n) xs)"

text \<open>
  \<open>collectFixes\<close>: the whitelisted files are dropped, the rest is cut to \<open>maxFilesPerRun\<close>,
  and every remaining script file goes through the detector and the builder. Any raise
  (a malformed pattern, an unreadable file) leaves the function.
\<close>

fun filter_files :: "engines \<Rightarrow> WhitelistConfig \<Rightarrow> string list \<Rightarrow> error + string list" where
  "filter_files eng wl [] = Inr []"
| "filter_files eng wl (f # rest) =
     (case shouldSkipFile eng f wl of
        Inl e \<Rightarrow> Inl e
      | Inr skip \<Rightarrow>
          (case filter_files eng wl rest of
             Inl e \<Rightarrow> Inl e
           | Inr kept \<Rightarrow> Inr (if skip then kept else f # kept)))"

fun collect_loop ::
  "engines \<Rightarrow> WhitelistConfig \<Rightarrow> fsys \<Rightarrow> string list \<Rightarrow> Change list \<Rightarrow> error + Change list" where
  "collect_loop eng wl fs [] allChanges = Inr allChanges"
| "collect_loop eng wl fs (f # rest) allChanges =
     (if \<not> ends_with_script_ext f ''.'' then collect_loop eng wl fs rest allChanges
      else (case findConsoleLogStatements eng (Some wl) fs f of
              Inl e \<Rightarrow> Inl e
            | Inr found \<Rightarrow>
                if length found > 0
                then (case removeConsoleLogs fs f found of
                        Inl e \<Rightarrow> Inl e
                      | Inr changes \<Rightarrow> collect_loop eng wl fs rest (allChanges @ changes))
                else collect_loop eng wl fs rest allChanges))"

definition collectFixes ::
  "engines \<Rightarrow> MergedConfig \<Rightarrow> SafeFixConfig \<Rightarrow> fsys \<Rightarrow> string list \<Rightarrow> error + Change list" where
  "collectFixes eng userConfig config fs targetFiles =
     (case filter_files eng (whitelist userConfig) targetFiles of
        Inl e \<Rightarrow> Inl e
      | Inr filteredFiles \<Rightarrow>
          (let filesToProcess = slice0 (maxFilesPerRun config) filteredFiles
           in if consoleLogs (fixTypes config)
                 \<and> enabled (console_logs (categories (fixesCfg userConfig)))
              then collect_loop eng (whitelist userConfig) fs filesToProcess []
              else Inr []))"

text \<open>
  The grouping both \<open>selectChanges\<close> and \<open>applyFixes\<close> start with: the changes by file, the
  files in the order in which they first occur.
\<close>

fun map_push :: "string \<Rightarrow> Change \<Rightarrow> (string \<times> Change list) list \<Rightarrow> (string \<times> Change list) list" where
  "map_push k c [] = [(k, [c])]"
| "map_push k c ((k', cs) # rest) =
     (if k = k' then (k', cs @ [c]) # rest else (k', cs) # map_push k c rest)"

definition fileGroups :: "Change list \<Rightarrow> (string \<times> Change list) list" where
  "fileGroups changes = foldl (\<lambda>m change. map_push (c_file change) change m) [] changes"

text \<open>
  \<open>ChangePreview.selectChanges\<close>: for every file the diff is computed (which reads the file
  and may raise), then the operator takes all its changes, none, or picks them one by one.
\<close>

fun select_loop ::
  "(string \<Rightarrow> file_action) \<Rightarrow> (Change \<Rightarrow> bool) \<Rightarrow> fsys \<Rightarrow> (string \<times> Change list) list
     \<Rightarrow> Change list \<Rightarrow> error + Change list" where
  "select_loop fa ia fs [] selectedChanges = Inr selectedChanges"
| "select_loop fa ia fs ((f, changes) # rest) selectedChanges =
     (case modifiedContent fs f changes of
        Inl e \<Rightarrow> Inl e
      | Inr diff \<Rightarrow>
          (case fa f of
             Yes \<Rightarrow> select_loop fa ia fs rest (selectedChanges @ changes)
           | Individual \<Rightarrow> select_loop fa ia fs rest (selectedChanges @ filter ia changes)
           | No \<Rightarrow> select_loop fa ia fs rest selectedChanges))"

definition selectChanges ::
  "(string \<Rightarrow> file_action) \<Rightarrow> (Change \<Rightarrow> bool) \<Rightarrow> fsys \<Rightarrow> Change list \<Rightarrow> error + Change list"
  where
  "selectChanges fa ia fs changes = select_loop fa ia fs (fileGroups changes) []"

text \<open>
  \<open>applyFixes\<close>: each group is written by \<open>applyChangesToFile\<close>. A raise stops the loop and
  leaves the files written so far as they are.
\<close>

fun applyFixes_loop ::
  "(string \<times> Change list) list \<Rightarrow> fsys \<Rightarrow> action list \<Rightarrow> error option \<times> fsys \<times> action list" where
  "applyFixes_loop [] fs tr = (None, fs, tr)"
| "applyFixes_loop ((filePath, changes) # rest) fs tr =
     (case applyChangesToFile fs filePath changes of
        Inl e \<Rightarrow> (Some e, fs, tr)
      | Inr fs' \<Rightarrow> applyFixes_loop rest fs' (tr @ [FileWritten filePath]))"

definition applyFixes :: "Change list \<Rightarrow> fsys \<Rightarrow> action list \<Rightarrow> error option \<times> fsys \<times> action list" where
  "applyFixes changes fs tr = applyFixes_loop (fileGroups changes) fs tr"

text \<open>The \<open>catch\<close> of \<open>runSafeFixes\<close>: the message is pushed, nothing is undone.\<close>

definition caught ::
  "error \<Rightarrow> SafeFixResult \<Rightarrow> fsys \<Rightarrow> action list \<Rightarrow> SafeFixResult \<times> fsys \<times> action list" where
  "caught e result fs tr = (result\<lparr>errors := errors result @ [error_message e]\<rparr>, fs, tr)"

text \<open>Phases 6 and 7: validation, rollback or cleanup, the offer to commit.\<close>

definition validate_and_finish ::
  "run_env \<Rightarrow> SafeFixConfig \<Rightarrow> ValidationConfig \<Rightarrow> BackupHandle option \<Rightarrow> SafeFixResult
     \<Rightarrow> fsys \<Rightarrow> action list \<Rightarrow> SafeFixResult \<times> fsys \<times> action list" where
  "validate_and_finish env config suite backup result fs tr =
     (let finish = (\<lambda>fs1 tr1.
            (let (fs2, tr2) =
                   (case backup of
                      Some handle \<Rightarrow>
                        if \<not> dryRun config
                        then (fst (cleanup handle fs1), tr1 @ [CleanupCalled])
                        else (fs1, tr1)
                    | None \<Rightarrow> (fs1, tr1));
                 result2 = result\<lparr>success := True\<rparr>
             in if \<not> dryRun config \<and> isGitRepository env
                then (if commitAnswer env
                      then (result2, fs2, tr2 @ [CommitAttempted])
                      else (result2, fs2, tr2))
                else (result2, fs2, tr2)))
      in if \<not> dryRun config
         then (case run (suite_env env) suite fs of
                 (validationResult, suite', fs1) \<Rightarrow>
                   if \<not> vr_success validationResult
                   then (case backup of
                           Some handle \<Rightarrow>
                             (case restore handle fs1 of
                                (u, fs2, logs) \<Rightarrow>
                                  (result\<lparr>errors := errors result
                                            @ [''Validation failed - changes rolled back'']\<rparr>,
                                   fs2, tr @ [ValidationRun False, RestoreCalled]))
                         | None \<Rightarrow> finish fs1 (tr @ [ValidationRun False]))
                   else finish fs1 (tr @ [ValidationRun True]))
         else finish fs tr)"

text \<open>Phases 4 and 5: the backup, then the writes (or the dry-run summary).\<close>

definition backup_and_apply ::
  "run_env \<Rightarrow> SafeFixConfig \<Rightarrow> ValidationConfig \<Rightarrow> Change list \<Rightarrow> SafeFixResult
     \<Rightarrow> fsys \<Rightarrow> action list \<Rightarrow> SafeFixResult \<times> fsys \<times> action list" where
  "backup_and_apply env config suite finalChanges result fs tr =
     (let apply = (\<lambda>backup result1 fs1 tr1.
            if dryRun config
            then validate_and_finish env config suite backup result1 fs1 (tr1 @ [DryRunSummary])
            else (case applyFixes finalChanges fs1 tr1 of
                    (Some e, fs2, tr2) \<Rightarrow> caught e result1 fs2 tr2
                  | (None, fs2, tr2) \<Rightarrow>
                      validate_and_finish env config suite backup
                        (result1\<lparr>filesModified := totalFiles (calculateSummary finalChanges),
                                 changesApplied := length finalChanges\<rparr>)
                        fs2 tr2))
      in if requireBackup config \<and> \<not> dryRun config
         then (let filesToBackup = uniq (map c_file finalChanges)
               in case createBackup (tempDir env) (randomId env) (clock env) fs filesToBackup of
                    Inl e \<Rightarrow> caught e result fs tr
                  | Inr (handle, fs1, logs) \<Rightarrow>
                      apply (Some handle) (result\<lparr>backupId := Some (bh_id handle)\<rparr>) fs1
                            (tr @ [BackupCreated (bh_id handle)]))
         else apply None result fs tr)"

text \<open>
  \<open>runSafeFixes\<close>. \<open>initialize\<close> merges the loaded user configuration with the defaults;
  it never raises.
\<close>

definition runSafeFixes ::
  "run_env \<Rightarrow> SafeFixConfig \<Rightarrow> fsys \<Rightarrow> string list \<Rightarrow> SafeFixResult \<times> fsys \<times> action list"
  where
  "runSafeFixes env config fs0 targetFiles =
     (let result = \<lparr>success = False, filesModified = 0, changesApplied = 0, backupId = None,
                     errors = []\<rparr>;
          userConfig = merge (loadedConfig env)
      in case performPreFlightChecks env config (new_ValidationSuite (validationCfg config)) fs0 of
           (Some e, suite, fs) \<Rightarrow> caught e result fs []
         | (None, suite, fs) \<Rightarrow>
             (case collectFixes (fixer_engines env) userConfig config fs targetFiles of
                Inl e \<Rightarrow> caught e result fs [PreFlightDone]
              | Inr changes \<Rightarrow>
                  if length changes = 0 then (result\<lparr>success := True\<rparr>, fs, [PreFlightDone])
                  else if showInteractive env = Reject \<or> showInteractive env = Skip
                  then (result\<lparr>success := True\<rparr>, fs, [PreFlightDone])
                  else (case (if showInteractive env = Partial
                              then selectChanges (fileAnswer env) (includeAnswer env) fs changes
                              else Inr changes) of
                          Inl e \<Rightarrow> caught e result fs [PreFlightDone]
                        | Inr finalChanges \<Rightarrow>
                            if length finalChanges = 0
                            then (result\<lparr>success := True\<rparr>, fs, [PreFlightDone])
                            else backup_and_apply env config suite finalChanges result fs
                                   [PreFlightDone])))"

text \<open>The result record with which \<open>runSafeFixes\<close> starts.\<close>

definition result0 :: SafeFixResult where
  "result0 = \<lparr>success = False, filesModified = 0, changesApplied = 0, backupId = None, errors = []\<rparr>"

text \<open>
  A run on one file, \<open>src/app.js\<close>, whose first line is a console call. No whitelist
  pattern matches anything in it. The test command passes on the original file and fails
  once the file has changed.
\<close>

definition scenarioT_fs :: fsys where
  "scenarioT_fs = \<lparr> contents = [''src/app.js'' \<mapsto> ''console.log(1);'' @ [CHR 0x0A] @ ''main();''],
                     unwritable = {} \<rparr>"

text \<open>The one edit the run collects.\<close>

definition scenarioT_change :: Change where
  "scenarioT_change =
     \<lparr> c_file = ''src/app.js'', line = 1, ctype = Remove, oldContent = Some ''console.log(1);'',
       newContent = None, description = ''Remove console.log statement'' \<rparr>"

definition scenarioT_env :: run_env where
  "scenarioT_env =
     \<lparr> suite_env =
         \<lparr> exec = (\<lambda>w command t.
                     if contents w ''src/app.js'' = contents scenarioT_fs ''src/app.js''
                     then (Completed ''ok'', w)
                     else (Threw (Some ''Command failed: npm test'') (Some ''1 failing'') None, w)),
           readPackageJson = (\<lambda>w. None),
           now = (\<lambda>w. 0) \<rparr>,
       fixer_engines =
         \<lparr> parse_calls = (\<lambda>content.
              Some [\<lparr> callee_console_member = True, property_name = ''log'',
                       loc_start = Some (1, 0), generated_code = ''console.log(1)'',
                       args_all_string_literals = False, parent_is_sequence = False,
                       inside_conditional = False \<rparr>,
                    \<lparr> callee_console_member = False, property_name = [],
                       loc_start = Some (2, 0), generated_code = ''main()'',
                       args_all_string_literals = True, parent_is_sequence = False,
                       inside_conditional = False \<rparr>]),
           regexp_test = no_match \<rparr>,
       loadedConfig = empty_user,
       isGitRepository = False,
       checkGitStatus = Inr True,
       createBackupBranch = Inr ''vibesweep-backup-2024-01-01T00-00-00'',
       continueAnyway = False,
       showInteractive = Accept,
       fileAnswer = (\<lambda>f. Yes),
       includeAnswer = (\<lambda>c. True),
       commitAnswer = False,
       tempDir = ''/tmp/vibesweep-backups'',
       randomId = ''ab12'',
       clock = 0 \<rparr>"

definition scenarioT_config :: "bool \<Rightarrow> SafeFixConfig" where
  "scenarioT_config backup =
     \<lparr> projectRoot = ''.'', dryRun = False, autoConfirm = False, maxFilesPerRun = 10,
       requireGitClean = False, requireBackup = backup,
       validationCfg = \<lparr> runTests = True, runTypeCheck = False, runLinter = False,
                         testCommand = Some ''npm test'', typeCheckCommand = None,
                         lintCommand = None, customCommands = None, timeout_ms = None \<rparr>,
       fixTypes = \<lparr> consoleLogs = True, debuggerStatements = False, deadCode = False \<rparr> \<rparr>"

text \<open>What the run without backups returns, leaves on disk and does.\<close>

definition scenarioT_result_no_backup :: SafeFixResult where
  "scenarioT_result_no_backup =
     \<lparr>success = True, filesModified = 1, changesApplied = 1, backupId = None, errors = []\<rparr>"

definition scenarioT_fs_no_backup :: fsys where
  "scenarioT_fs_no_backup =
     scenarioT_fs\<lparr>contents := (contents scenarioT_fs)(''src/app.js'' \<mapsto> ''main();'')\<rparr>"

definition scenarioT_trace_no_backup :: "action list" where
  "scenarioT_trace_no_backup = [PreFlightDone, FileWritten ''src/app.js'', ValidationRun False]"

text \<open>The same for the run with backups.\<close>

definition scenarioT_result_backup :: SafeFixResult where
  "scenarioT_result_backup =
     \<lparr>success = False, filesModified = 1, changesApplied = 1, backupId = Some ''ab12'',
      errors = [''Validation failed - changes rolled back'']\<rparr>"

definition scenarioT_fs_backup :: fsys where
  "scenarioT_fs_backup =
     scenarioT_fs\<lparr>contents := (contents scenarioT_fs)
       (''/tmp/vibesweep-backups/backup-ab12/app.js'' \<mapsto> ''console.log(1);'' @ [CHR 0x0A] @ ''main();'',
        ''src/app.js'' \<mapsto> ''console.log(1);'' @ [CHR 0x0A] @ ''main();'')\<rparr>"

definition scenarioT_trace_backup :: "action list" where
  "scenarioT_trace_backup =
     [PreFlightDone, BackupCreated ''ab12'', FileWritten ''src/app.js'', ValidationRun False,
      RestoreCalled]"

section \<open>Properties of the configuration merge\<close>

text \<open>
  Claim C10. For every user configuration, each of the three whitelist lists of the merged
  configuration starts with the complete default list, in the default order, followed by
  the user's entries: the merge appends, so every default entry is still present and none
  is removed or replaced.
\<close>

theorem merge_whitelist_keeps_defaults:
  "wl_files (whitelist (merge u))
     = wl_files (whitelist getDefaultConfig) @ or_empty (opt_field (u_whitelist u) uw_files)
   \<and> wl_patterns (whitelist (merge u))
     = wl_patterns (whitelist getDefaultConfig) @ or_empty (opt_field (u_whitelist u) uw_patterns)
   \<and> wl_comments (whitelist (merge u))
     = wl_comments (whitelist getDefaultConfig) @ or_empty (opt_field (u_whitelist u) uw_comments)
   \<and> set (wl_files (whitelist getDefaultConfig)) \<subseteq> set (wl_files (whitelist (merge u)))
   \<and> set (wl_patterns (whitelist getDefaultConfig)) \<subseteq> set (wl_patterns (whitelist (merge u)))
   \<and> set (wl_comments (whitelist getDefaultConfig)) \<subseteq> set (wl_comments (whitelist (merge u)))"
  by (simp add: merge_def Let_def)

section \<open>Properties of the edit application\<close>




section \<open>Properties of the validation suite\<close>

lemma runCommand_check: "runCommand env config w name c = (r, w') \<Longrightarrow> check r = name"
  by (auto simp: runCommand_def Let_def split: prod.splits cmd_outcome.splits)

lemma runCommand_output:
  "runCommand env config w name c = (r, w') \<Longrightarrow> \<not> cr_success r \<Longrightarrow>
     \<exists>out. cr_output r = Some out \<and> length out \<le> 1000"
  by (auto simp: runCommand_def Let_def split: prod.splits cmd_outcome.splits)

lemma run_all_append:
  "run_all env config (xs @ ys) w =
     (case run_all env config xs w of
        (rs, w') \<Rightarrow> (case run_all env config ys w' of (rs', w'') \<Rightarrow> (rs @ rs', w'')))"
  by (induction xs arbitrary: w) (auto split: prod.splits)

lemma run_all_names: "run_all env config xs w = (outs, w') \<Longrightarrow> map check outs = map fst xs"
proof (induction xs arbitrary: w outs w')
  case Nil
  then show ?case by simp
next
  case (Cons x xs)
  obtain name c where x: "x = (name, c)" by (cases x)
  obtain r w1 where rc: "runCommand env config w name c = (r, w1)" by (cases "runCommand env config w name c")
  obtain rs w2 where ra: "run_all env config xs w1 = (rs, w2)" by (cases "run_all env config xs w1")
  from Cons.prems x rc ra have outs: "outs = r # rs" by simp
  from Cons.IH [OF ra] runCommand_check [OF rc] show ?case by (simp add: outs x)
qed

lemma run_all_output:
  "run_all env config xs w = (outs, w') \<Longrightarrow> r \<in> set outs \<Longrightarrow> \<not> cr_success r \<Longrightarrow>
     \<exists>out. cr_output r = Some out \<and> length out \<le> 1000"
proof (induction xs arbitrary: w outs w')
  case Nil
  then show ?case by simp
next
  case (Cons x xs)
  obtain name c where x: "x = (name, c)" by (cases x)
  obtain r1 w1 where rc: "runCommand env config w name c = (r1, w1)" by (cases "runCommand env config w name c")
  obtain rs w2 where ra: "run_all env config xs w1 = (rs, w2)" by (cases "run_all env config xs w1")
  from Cons.prems(1) x rc ra have outs: "outs = r1 # rs" by simp
  show ?case
  proof (cases "r = r1")
    case True
    with runCommand_output [OF rc] Cons.prems(3) show ?thesis by simp
  next
    case False
    with Cons.prems(2) outs have "r \<in> set rs" by simp
    from Cons.IH [OF ra this Cons.prems(3)] show ?thesis .
  qed
qed

lemma run_custom_run_all:
  "run_all env config (map (\<lambda>c. (''Custom: '' @ c, c)) cmds) w = (outs, w') \<Longrightarrow>
   run_custom env config cmds (ps, fs, w)
     = (ps @ map check (filter cr_success outs), fs @ filter (\<lambda>r. \<not> cr_success r) outs, w')"
proof (induction cmds arbitrary: ps fs w outs w')
  case Nil
  then show ?case by simp
next
  case (Cons c cmds)
  obtain r w1 where rc: "runCommand env config w (''Custom: '' @ c) c = (r, w1)"
    by (cases "runCommand env config w (''Custom: '' @ c) c")
  obtain rs w2 where ra: "run_all env config (map (\<lambda>c. (''Custom: '' @ c, c)) cmds) w1 = (rs, w2)"
    by (cases "run_all env config (map (\<lambda>c. (''Custom: '' @ c, c)) cmds) w1")
  from Cons.prems rc ra have outs: "outs = r # rs" and w': "w' = w2" by simp_all
  show ?case
    using Cons.IH [OF ra] rc by (simp add: outs w' record_result_def)
qed

lemma run_builtin_run_all:
  "run_all env config (builtin_check flag command name) w = (outs, w') \<Longrightarrow>
   run_builtin env config flag command name (ps, fs, w)
     = (ps @ map check (filter cr_success outs), fs @ filter (\<lambda>r. \<not> cr_success r) outs, w')"
  by (auto simp: run_builtin_def builtin_check_def record_result_def runCommand_check
           split: option.splits prod.splits if_splits)

text \<open>
  Claim C4. For every validation configuration and every behaviour of the commands, \<open>run\<close>
  executes every configured check, in order, each to its end whatever the earlier ones did:
  the outcomes are those of running the whole list. Every check is reported exactly once,
  a passing one under its name in \<open>passed\<close>, a failing one as an entry of \<open>failed\<close>
  whose captured output has at most 1000 characters, and \<open>success\<close> is true exactly when
  \<open>failed\<close> is empty.
\<close>

theorem run_reports_every_configured_check:
  assumes "run env config0 w0 = (r, config, w)"
  shows "config = detectCommands (readPackageJson env w0) config0
     \<and> (\<exists>outs. run_all env config (configured_checks config) w0 = (outs, w)
           \<and> map check outs = map fst (configured_checks config)
           \<and> passed r = map check (filter cr_success outs)
           \<and> failed r = filter (\<lambda>x. \<not> cr_success x) outs)
     \<and> (vr_success r \<longleftrightarrow> failed r = [])
     \<and> (\<forall>f \<in> set (failed r). \<not> cr_success f
            \<and> (\<exists>out. cr_output f = Some out \<and> length out \<le> 1000))"
proof -
  define cfg where "cfg = detectCommands (readPackageJson env w0) config0"
  let ?b1 = "builtin_check (runTests cfg) (testCommand cfg) ''Tests''"
  let ?b2 = "builtin_check (runTypeCheck cfg) (typeCheckCommand cfg) ''Type Check''"
  let ?b3 = "builtin_check (runLinter cfg) (lintCommand cfg) ''Linter''"
  let ?b4 = "map (\<lambda>c. (''Custom: '' @ c, c)) (or_empty (customCommands cfg))"
  obtain o1 w1 where r1: "run_all env cfg ?b1 w0 = (o1, w1)" by (cases "run_all env cfg ?b1 w0")
  obtain o2 w2 where r2: "run_all env cfg ?b2 w1 = (o2, w2)" by (cases "run_all env cfg ?b2 w1")
  obtain o3 w3 where r3: "run_all env cfg ?b3 w2 = (o3, w3)" by (cases "run_all env cfg ?b3 w2")
  obtain o4 w4 where r4: "run_all env cfg ?b4 w3 = (o4, w4)" by (cases "run_all env cfg ?b4 w3")
  let ?outs = "o1 @ o2 @ o3 @ o4"
  let ?P = "\<lambda>os. map check (filter cr_success os)"
  let ?F = "\<lambda>os. filter (\<lambda>x. \<not> cr_success x) os"
  have s1: "run_builtin env cfg (runTests cfg) (testCommand cfg) ''Tests'' ([], [], w0)
              = (?P o1, ?F o1, w1)"
    using run_builtin_run_all [OF r1, of "[]" "[]"] by simp
  have s2: "run_builtin env cfg (runTypeCheck cfg) (typeCheckCommand cfg) ''Type Check''
              (?P o1, ?F o1, w1) = (?P o1 @ ?P o2, ?F o1 @ ?F o2, w2)"
    using run_builtin_run_all [OF r2] by simp
  have s3: "run_builtin env cfg (runLinter cfg) (lintCommand cfg) ''Linter''
              (?P o1 @ ?P o2, ?F o1 @ ?F o2, w2)
              = (?P o1 @ ?P o2 @ ?P o3, ?F o1 @ ?F o2 @ ?F o3, w3)"
    using run_builtin_run_all [OF r3, of "?P o1 @ ?P o2" "?F o1 @ ?F o2"] by simp
  have s4: "(case customCommands cfg of
               None \<Rightarrow> (?P o1 @ ?P o2 @ ?P o3, ?F o1 @ ?F o2 @ ?F o3, w3)
             | Some commands \<Rightarrow>
                 run_custom env cfg commands (?P o1 @ ?P o2 @ ?P o3, ?F o1 @ ?F o2 @ ?F o3, w3))
            = (?P ?outs, ?F ?outs, w4)"
  proof (cases "customCommands cfg")
    case None
    with r4 show ?thesis by (simp add: or_empty_def)
  next
    case (Some commands)
    with r4 have "run_all env cfg (map (\<lambda>c. (''Custom: '' @ c, c)) commands) w3 = (o4, w4)"
      by (simp add: or_empty_def)
    from run_custom_run_all [OF this, of "?P o1 @ ?P o2 @ ?P o3" "?F o1 @ ?F o2 @ ?F o3"] Some
    show ?thesis by simp
  qed
  have whole: "run env config0 w0
                 = (\<lparr>vr_success = (length (?F ?outs) = 0), passed = ?P ?outs, failed = ?F ?outs,
                     duration = now env w4 - now env w0\<rparr>, cfg, w4)"
    unfolding run_def Let_def cfg_def [symmetric] s1 s2 s3 s4 by simp
  with assms have r: "r = \<lparr>vr_success = (length (?F ?outs) = 0), passed = ?P ?outs,
                            failed = ?F ?outs, duration = now env w4 - now env w0\<rparr>"
    and c: "config = cfg" and w: "w = w4" by auto
  have all: "run_all env cfg (configured_checks cfg) w0 = (?outs, w4)"
    unfolding configured_checks_def run_all_append r1 r2 r3 r4 prod.case by simp
  have names: "map check ?outs = map fst (configured_checks cfg)"
    by (rule run_all_names [OF all])
  have bound: "\<forall>f \<in> set (?F ?outs). \<not> cr_success f
                 \<and> (\<exists>out. cr_output f = Some out \<and> length out \<le> 1000)"
  proof
    fix f assume "f \<in> set (?F ?outs)"
    then have mem: "f \<in> set ?outs" and nf: "\<not> cr_success f" by auto
    from run_all_output [OF all mem nf] nf
    show "\<not> cr_success f \<and> (\<exists>out. cr_output f = Some out \<and> length out \<le> 1000)" by simp
  qed
  have pr: "passed r = ?P ?outs" and fr: "failed r = ?F ?outs"
    and sr: "vr_success r = (length (?F ?outs) = 0)"
    by (simp_all only: r ValidationResult.simps)
  have A: "config = detectCommands (readPackageJson env w0) config0"
    by (simp only: c cfg_def)
  have B: "\<exists>outs. run_all env config (configured_checks config) w0 = (outs, w)
           \<and> map check outs = map fst (configured_checks config)
           \<and> passed r = map check (filter cr_success outs)
           \<and> failed r = filter (\<lambda>x. \<not> cr_success x) outs"
    using all names pr fr unfolding c w by blast
  have C: "vr_success r \<longleftrightarrow> failed r = []"
    by (simp only: sr fr length_0_conv)
  have D: "\<forall>f \<in> set (failed r). \<not> cr_success f
            \<and> (\<exists>out. cr_output f = Some out \<and> length out \<le> 1000)"
    using bound by (simp only: fr)
  from A B C D show ?thesis by blast
qed


text \<open>
  Scenario C: tests, type check and linter are configured and the type check fails; all
  three outcomes are reported.
\<close>

theorem run_reports_every_configured_check_witness:
  "run scenarioC_env scenarioC_config () = (scenarioC_result, scenarioC_config, ())
   \<and> map fst (configured_checks scenarioC_config) = [''Tests'', ''Type Check'', ''Linter'']
   \<and> (\<exists>outs. run_all scenarioC_env scenarioC_config (configured_checks scenarioC_config) ()
                  = (outs, ())
           \<and> map check outs = map fst (configured_checks scenarioC_config)
           \<and> passed scenarioC_result = map check (filter cr_success outs)
           \<and> failed scenarioC_result = filter (\<lambda>x. \<not> cr_success x) outs)
   \<and> passed scenarioC_result = [''Tests'', ''Linter'']
   \<and> map check (failed scenarioC_result) = [''Type Check'']
   \<and> map cr_output (failed scenarioC_result) = [Some ''error TS2304'']
   \<and> vr_success scenarioC_result = False"
proof -
  have h: "run scenarioC_env scenarioC_config () = (scenarioC_result, scenarioC_config, ())"
    by (simp add: run_def scenarioC_env_def scenarioC_config_def scenarioC_result_def
        detectCommands_def run_builtin_def record_result_def runCommand_def or_str_def Let_def)
  have c: "map fst (configured_checks scenarioC_config) = [''Tests'', ''Type Check'', ''Linter'']"
    by (simp add: configured_checks_def builtin_check_def scenarioC_config_def or_empty_def)
  have v: "passed scenarioC_result = [''Tests'', ''Linter'']
           \<and> map check (failed scenarioC_result) = [''Type Check'']
           \<and> map cr_output (failed scenarioC_result) = [Some ''error TS2304'']
           \<and> vr_success scenarioC_result = False"
    by (simp add: scenarioC_result_def)
  from run_reports_every_configured_check [OF h] h c v show ?thesis by blast
qed

section \<open>Properties of the backup system\<close>

lemma restore_one_ok:
  "restorable fs1 (orig, b) \<Longrightarrow>
   restore_one (orig, b) (fs1, c, errs) = (fs1\<lparr>contents := (contents fs1)(orig := contents fs1 b)\<rparr>, c + 1, errs)"
  by (auto simp: restorable_def restore_one_def readFile_def writeFile_def split: option.splits)

lemma restore_one_fail:
  "\<not> restorable fs1 (orig, b) \<Longrightarrow>
   restore_one (orig, b) (fs1, c, errs) = (fs1, c, errs @ [restore_error_text fs1 (orig, b)])"
  by (auto simp: restorable_def restore_one_def readFile_def writeFile_def restore_error_text_def
           split: option.splits)

lemma restore_fold:
  assumes "distinct (map fst xs)"
    and "set (map snd xs) \<inter> set (map fst xs) = {}"
    and "\<forall>b \<in> set (map snd xs). contents fs1 b = contents fs b"
    and "unwritable fs1 = unwritable fs"
    and "foldl (\<lambda>st entry. restore_one entry st) (fs1, c, errs) xs = (fs2, c2, errs2)"
  shows "c2 = c + length (filter (restorable fs) xs)
       \<and> errs2 = errs @ map (restore_error_text fs) (filter (\<lambda>e. \<not> restorable fs e) xs)
       \<and> unwritable fs2 = unwritable fs
       \<and> (\<forall>e \<in> set xs. contents fs2 (fst e)
                          = (if restorable fs e then contents fs (snd e) else contents fs1 (fst e)))
       \<and> (\<forall>p. p \<notin> set (map fst xs) \<longrightarrow> contents fs2 p = contents fs1 p)"
  using assms
proof (induction xs arbitrary: fs1 c errs)
  case Nil
  then show ?case by simp
next
  case (Cons x xs)
  obtain orig b where x: "x = (orig, b)" by (cases x)
  have same: "restorable fs1 x = restorable fs x"
    using Cons.prems(3,4) by (simp add: restorable_def x)
  have etx: "restore_error_text fs1 x = restore_error_text fs x"
    using Cons.prems(3) by (simp add: restore_error_text_def x)
  have d: "distinct (map fst xs)" and o_new: "orig \<notin> set (map fst xs)"
    using Cons.prems(1) by (simp_all add: x)
  have dj: "set (map snd xs) \<inter> set (map fst xs) = {}"
    using Cons.prems(2) by auto
  have o_nb: "orig \<notin> set (map snd xs)"
    using Cons.prems(2) by (auto simp: x)
  show ?case
  proof (cases "restorable fs x")
    case True
    let ?fs = "fs1\<lparr>contents := (contents fs1)(orig := contents fs1 b)\<rparr>"
    from True same have step: "restore_one x (fs1, c, errs) = (?fs, c + 1, errs)"
      by (simp add: x restore_one_ok)
    have b3: "\<forall>b' \<in> set (map snd xs). contents ?fs b' = contents fs b'"
      using Cons.prems(3) o_nb by auto
    have b4: "unwritable ?fs = unwritable fs" using Cons.prems(4) by simp
    have f: "foldl (\<lambda>st entry. restore_one entry st) (?fs, c + 1, errs) xs = (fs2, c2, errs2)"
      using Cons.prems(5) step by simp
    note ih = Cons.IH [OF d dj b3 b4 f]
    have bb: "contents fs1 b = contents fs b" using Cons.prems(3) by (simp add: x)
    from ih True o_new show ?thesis
      by (auto simp: x bb)
  next
    case False
    from False same etx have step: "restore_one x (fs1, c, errs) = (fs1, c, errs @ [restore_error_text fs x])"
      by (simp add: x restore_one_fail)
    have b3: "\<forall>b' \<in> set (map snd xs). contents fs1 b' = contents fs b'"
      using Cons.prems(3) by auto
    have f: "foldl (\<lambda>st entry. restore_one entry st) (fs1, c, errs @ [restore_error_text fs x]) xs
               = (fs2, c2, errs2)"
      using Cons.prems(5) step by simp
    note ih = Cons.IH [OF d dj b3 Cons.prems(4) f]
    from ih False o_new show ?thesis
      by (auto simp: x)
  qed
qed

text \<open>Every entry of the handle is tried: it is either counted as restored or listed in \<open>errors\<close>.\<close>

lemma restore_fold_total:
  "foldl (\<lambda>st entry. restore_one entry st) (fs1, c, errs) xs = (fs2, c2, errs2)
   \<Longrightarrow> c2 + length errs2 = c + length errs + length xs"
proof (induction xs arbitrary: fs1 c errs)
  case Nil
  then show ?case by simp
next
  case (Cons x xs)
  obtain fs1' c' errs' where s: "restore_one x (fs1, c, errs) = (fs1', c', errs')"
    by (cases "restore_one x (fs1, c, errs)")
  then have "c' + length errs' = c + length errs + 1"
    by (auto simp: restore_one_def split: prod.splits sum.splits)
  moreover from Cons.prems s have "foldl (\<lambda>st entry. restore_one entry st) (fs1', c', errs') xs = (fs2, c2, errs2)"
    by simp
  from Cons.IH [OF this] have "c2 + length errs2 = c' + length errs' + length xs" .
  ultimately show ?case by simp
qed

text \<open>
  Claim C3, as the code has it. For a handle whose originals are distinct and none of whose
  backup paths is itself an original, \<open>restore\<close> goes through every entry whatever
  happened to the earlier ones: an entry that can be restored ends with the content of its
  backup, an entry that cannot keeps its content and its failure is written to the error
  log, after a headline that counts the failures. The failures reach the log only: the
  value handed back to the caller is \<open>()\<close>.
\<close>

theorem restore_best_effort:
  assumes "distinct (map fst (bh_files h))"
    and "set (map snd (bh_files h)) \<inter> set (map fst (bh_files h)) = {}"
    and "restore h fs = (u, fs', logs)"
  shows "(\<forall>e \<in> set (bh_files h). restorable fs e \<longrightarrow> contents fs' (fst e) = contents fs (snd e))
       \<and> (\<forall>e \<in> set (bh_files h). \<not> restorable fs e \<longrightarrow>
              contents fs' (fst e) = contents fs (fst e)
              \<and> LogError (''  - '' @ restore_error_text fs e) \<in> set logs)
       \<and> ((\<exists>e \<in> set (bh_files h). \<not> restorable fs e) \<longrightarrow>
              LogError (''Failed to restore ''
                        @ string_of_nat (length (filter (\<lambda>e. \<not> restorable fs e) (bh_files h)))
                        @ '' files:'') \<in> set logs)
       \<and> u = ()"
proof -
  obtain fs2 c2 errs2 where loop: "restore_loop h fs = (fs2, c2, errs2)"
    by (cases "restore_loop h fs")
  then have f: "foldl (\<lambda>st entry. restore_one entry st) (fs, 0, []) (bh_files h) = (fs2, c2, errs2)"
    by (simp add: restore_loop_def)
  have "\<forall>b \<in> set (map snd (bh_files h)). contents fs b = contents fs b" by simp
  from restore_fold [OF assms(1) assms(2) this refl f]
  have errs: "errs2 = map (restore_error_text fs) (filter (\<lambda>e. \<not> restorable fs e) (bh_files h))"
    and cont: "\<forall>e \<in> set (bh_files h). contents fs2 (fst e)
                 = (if restorable fs e then contents fs (snd e) else contents fs (fst e))"
    by simp_all
  let ?head = "LogError (''Failed to restore '' @ string_of_nat (length errs2) @ '' files:'')"
  let ?tail = "LogSuccess (''Restored '' @ string_of_nat c2 @ '' files from backup '' @ bh_id h)"
  from assms(3) loop
  have fs': "fs' = fs2"
    and logs: "logs = (if length errs2 > 0
                       then ?head # map (\<lambda>err. LogError (''  - '' @ err)) errs2 else []) @ [?tail]"
    by (simp_all add: restore_def)
  have A: "\<forall>e \<in> set (bh_files h). restorable fs e \<longrightarrow> contents fs' (fst e) = contents fs (snd e)"
    using cont fs' by simp
  have B: "\<forall>e \<in> set (bh_files h). \<not> restorable fs e \<longrightarrow>
              contents fs' (fst e) = contents fs (fst e)
              \<and> LogError (''  - '' @ restore_error_text fs e) \<in> set logs"
  proof (intro ballI impI)
    fix e assume e: "e \<in> set (bh_files h)" and n: "\<not> restorable fs e"
    then have m: "restore_error_text fs e \<in> set errs2" by (simp add: errs)
    then have "errs2 \<noteq> []" by auto
    with m have "LogError (''  - '' @ restore_error_text fs e) \<in> set logs"
      unfolding logs by (simp add: image_iff)
    moreover from cont e n fs' have "contents fs' (fst e) = contents fs (fst e)" by simp
    ultimately show "contents fs' (fst e) = contents fs (fst e)
              \<and> LogError (''  - '' @ restore_error_text fs e) \<in> set logs" by simp
  qed
  have C: "(\<exists>e \<in> set (bh_files h). \<not> restorable fs e) \<longrightarrow>
              LogError (''Failed to restore ''
                        @ string_of_nat (length (filter (\<lambda>e. \<not> restorable fs e) (bh_files h)))
                        @ '' files:'') \<in> set logs"
  proof
    assume "\<exists>e \<in> set (bh_files h). \<not> restorable fs e"
    then have "filter (\<lambda>e. \<not> restorable fs e) (bh_files h) \<noteq> []"
      by (simp add: filter_empty_conv)
    then have ne: "errs2 \<noteq> []" by (simp add: errs)
    have len: "length errs2 = length (filter (\<lambda>e. \<not> restorable fs e) (bh_files h))"
      by (simp add: errs)
    from ne have "?head \<in> set logs" unfolding logs by simp
    then show "LogError (''Failed to restore ''
                        @ string_of_nat (length (filter (\<lambda>e. \<not> restorable fs e) (bh_files h)))
                        @ '' files:'') \<in> set logs"
      by (simp only: len)
  qed
  from A B C show ?thesis by simp
qed

lemma scenarioR_restore:
  "restore scenarioR_handle scenarioR_fs = ((), scenarioR_fs_after, scenarioR_logs)"
  by (simp add: restore_def restore_loop_def restore_one_def scenarioR_handle_def scenarioR_fs_def
      scenarioR_fs_after_def scenarioR_logs_def
      readFile_def writeFile_def error_message_def digit_char_def)

text \<open>The handle with the missing second backup: the first file is restored, the second is reported.\<close>

theorem restore_best_effort_witness:
  "distinct (map fst (bh_files scenarioR_handle))
   \<and> set (map snd (bh_files scenarioR_handle)) \<inter> set (map fst (bh_files scenarioR_handle)) = {}
   \<and> restore scenarioR_handle scenarioR_fs = ((), scenarioR_fs_after, scenarioR_logs)
   \<and> contents scenarioR_fs_after ''src/a.js'' = Some ''old a''
   \<and> contents scenarioR_fs_after ''src/b.js'' = Some ''new b''
   \<and> LogError ''  - src/b.js: ENOENT: no such file or directory, open /tmp/vb/backup-ab12/b.js''
         \<in> set scenarioR_logs
   \<and> LogError ''Failed to restore 1 files:'' \<in> set scenarioR_logs"
proof -
  let ?a = "(''src/a.js'', ''/tmp/vb/backup-ab12/a.js'')"
  let ?b = "(''src/b.js'', ''/tmp/vb/backup-ab12/b.js'')"
  have h1: "distinct (map fst (bh_files scenarioR_handle))"
    by (simp add: scenarioR_handle_def)
  have h2: "set (map snd (bh_files scenarioR_handle)) \<inter> set (map fst (bh_files scenarioR_handle)) = {}"
    by (simp add: scenarioR_handle_def)
  note h3 = scenarioR_restore
  note t = restore_best_effort [OF h1 h2 h3]
  have fl: "bh_files scenarioR_handle = [?a, ?b]" by (simp add: scenarioR_handle_def)
  have ra: "restorable scenarioR_fs ?a" by (simp add: restorable_def scenarioR_fs_def)
  have rb: "\<not> restorable scenarioR_fs ?b" by (simp add: restorable_def scenarioR_fs_def)
  have ca: "contents scenarioR_fs (snd ?a) = Some ''old a''" by (simp add: scenarioR_fs_def)
  have cb: "contents scenarioR_fs (fst ?b) = Some ''new b''" by (simp add: scenarioR_fs_def)
  have tb: "restore_error_text scenarioR_fs ?b
              = ''src/b.js: ENOENT: no such file or directory, open /tmp/vb/backup-ab12/b.js''"
    by (simp add: restore_error_text_def scenarioR_fs_def error_message_def)
  have n1: "length (filter (\<lambda>e. \<not> restorable scenarioR_fs e) (bh_files scenarioR_handle)) = 1"
    using ra rb by (simp add: fl)
  have s1: "string_of_nat 1 = ''1''" by (simp add: digit_char_def)
  from t have "contents scenarioR_fs_after (fst ?a) = contents scenarioR_fs (snd ?a)"
    using ra by (simp add: fl)
  with ca have A: "contents scenarioR_fs_after ''src/a.js'' = Some ''old a''" by simp
  from t have "contents scenarioR_fs_after (fst ?b) = contents scenarioR_fs (fst ?b)
               \<and> LogError (''  - '' @ restore_error_text scenarioR_fs ?b) \<in> set scenarioR_logs"
    using rb by (simp add: fl)
  with cb tb have B: "contents scenarioR_fs_after ''src/b.js'' = Some ''new b''"
    and C: "LogError ''  - src/b.js: ENOENT: no such file or directory, open /tmp/vb/backup-ab12/b.js''
              \<in> set scenarioR_logs" by simp_all
  from t have "(\<exists>e \<in> set (bh_files scenarioR_handle). \<not> restorable scenarioR_fs e) \<longrightarrow>
              LogError (''Failed to restore ''
                        @ string_of_nat (length (filter (\<lambda>e. \<not> restorable scenarioR_fs e)
                                                   (bh_files scenarioR_handle)))
                        @ '' files:'') \<in> set scenarioR_logs" by blast
  moreover have "\<exists>e \<in> set (bh_files scenarioR_handle). \<not> restorable scenarioR_fs e"
    using rb by (simp add: fl)
  ultimately have D: "LogError ''Failed to restore 1 files:'' \<in> set scenarioR_logs"
    by (simp only: n1 s1) simp
  from h1 h2 h3 A B C D show ?thesis by blast
qed

text \<open>
  The claim as stated asks that the failed files be returned to the caller. The value
  returned when one file could not be restored is the value returned when all were: the
  caller cannot tell the two runs apart.
\<close>

theorem restore_failure_list_counterexample:
  "fst (restore scenarioR_handle scenarioR_fs) = fst (restore scenarioR_handle scenarioR_fs_complete)
   \<and> snd (snd (restore_loop scenarioR_handle scenarioR_fs))
       = [''src/b.js: ENOENT: no such file or directory, open /tmp/vb/backup-ab12/b.js'']
   \<and> snd (snd (restore_loop scenarioR_handle scenarioR_fs_complete)) = []"
  by (simp add: restore_loop_def restore_one_def scenarioR_handle_def scenarioR_fs_def
      scenarioR_fs_complete_def readFile_def writeFile_def error_message_def)

text \<open>
  Claim C2, at Scenario D. The backup path is the backup directory joined with the basename
  of the target, so \<open>a/util.js\<close> and \<open>b/util.js\<close> are recorded under one backup path:
  the second copy overwrites the first, and a later \<open>restore\<close> writes the content of
  \<open>b/util.js\<close> over \<open>a/util.js\<close>.
\<close>

theorem createBackup_basename_collision:
  "(case createBackup ''/tmp/vibesweep-backups'' ''00c0ffee'' 0 scenarioD_fs
           [''a/util.js'', ''b/util.js''] of
      Inl e \<Rightarrow> None
    | Inr (handle, fs', logs) \<Rightarrow>
        Some (bh_files handle,
              contents fs' ''/tmp/vibesweep-backups/backup-00c0ffee/util.js'',
              contents (fst (snd (restore handle (scenarioD_modify fs')))) ''a/util.js'',
              contents (fst (snd (restore handle (scenarioD_modify fs')))) ''b/util.js''))
   = Some ([(''a/util.js'', ''/tmp/vibesweep-backups/backup-00c0ffee/util.js''),
            (''b/util.js'', ''/tmp/vibesweep-backups/backup-00c0ffee/util.js'')],
           Some ''export const b = 2;'',
           Some ''export const b = 2;'',
           Some ''export const b = 2;'')"
  by (simp add: createBackup_def backup_one_def scenarioD_fs_def scenarioD_modify_def
      readFile_def writeFile_def mkdir_def path_join_def basename_def dirname_def
      strip_slashes_def startsWith_def restore_def restore_loop_def restore_one_def Let_def)

section \<open>Properties of the transaction\<close>

lemma applyFixes_loop_trace:
  "applyFixes_loop gs fs tr = (e, fs2, tr2) \<Longrightarrow>
     \<exists>ws. tr2 = tr @ map FileWritten ws \<and> (e = None \<longrightarrow> ws = map fst gs)"
proof (induction gs fs tr rule: applyFixes_loop.induct)
  case (1 fs tr)
  then show ?case by simp
next
  case (2 filePath changes rest fs tr)
  show ?case
  proof (cases "applyChangesToFile fs filePath changes")
    case (Inl err)
    with "2.prems" show ?thesis by auto
  next
    case (Inr fs1)
    with "2.prems" have "applyFixes_loop rest fs1 (tr @ [FileWritten filePath]) = (e, fs2, tr2)"
      by simp
    from "2.IH" [OF Inr this] obtain ws where
      ws: "tr2 = (tr @ [FileWritten filePath]) @ map FileWritten ws" "e = None \<longrightarrow> ws = map fst rest"
      by blast
    show ?thesis
      by (rule exI [of _ "filePath # ws"]) (use ws in simp)
  qed
qed

lemma map_push_nonempty: "map_push k c m \<noteq> []"
  by (cases m) (auto split: prod.splits if_splits)

lemma fileGroups_nonempty: "changes \<noteq> [] \<Longrightarrow> fileGroups changes \<noteq> []"
proof (induction changes rule: rev_induct)
  case Nil
  then show ?case by simp
next
  case (snoc x xs)
  show ?case by (simp add: fileGroups_def map_push_nonempty)
qed

lemma applyFixes_trace:
  assumes "applyFixes changes fs tr = (e, fs2, tr2)"
  shows "\<exists>ws. tr2 = tr @ map FileWritten ws \<and> (e = None \<longrightarrow> changes \<noteq> [] \<longrightarrow> ws \<noteq> [])"
proof -
  from assms have "applyFixes_loop (fileGroups changes) fs tr = (e, fs2, tr2)"
    by (simp add: applyFixes_def)
  from applyFixes_loop_trace [OF this] obtain ws where
    ws: "tr2 = tr @ map FileWritten ws" "e = None \<longrightarrow> ws = map fst (fileGroups changes)"
    by blast
  have "e = None \<longrightarrow> changes \<noteq> [] \<longrightarrow> ws \<noteq> []"
    using ws(2) fileGroups_nonempty by auto
  with ws(1) show ?thesis by blast
qed

lemma finish_no_backup:
  assumes "validate_and_finish env config suite None result fs tr = (res, fs', tr')"
    and "\<not> dryRun config"
  shows "\<exists>b ext. tr' = tr @ ValidationRun b # ext \<and> set ext \<subseteq> {CommitAttempted}
           \<and> res = result\<lparr>success := True\<rparr>"
  using assms
  by (auto simp: validate_and_finish_def Let_def split: prod.splits if_splits)

lemma finish_backup:
  assumes "validate_and_finish env config suite (Some h) result fs tr = (res, fs', tr')"
    and "\<not> dryRun config"
  shows "(\<exists>ext. tr' = tr @ ValidationRun True # ext \<and> set ext \<subseteq> {CleanupCalled, CommitAttempted}
            \<and> res = result\<lparr>success := True\<rparr>)
       \<or> (tr' = tr @ [ValidationRun False, RestoreCalled]
            \<and> res = result\<lparr>errors := errors result @ [''Validation failed - changes rolled back'']\<rparr>)"
  using assms
  by (auto simp: validate_and_finish_def Let_def split: prod.splits if_splits)

lemma finish_dry:
  assumes "validate_and_finish env config suite backup result fs tr = (res, fs', tr')"
    and "dryRun config"
  shows "tr' = tr \<and> res = result\<lparr>success := True\<rparr>"
  using assms
  by (auto simp: validate_and_finish_def Let_def split: prod.splits if_splits option.splits)

lemma runSafeFixes_cases:
  assumes "runSafeFixes env config fs0 targetFiles = (res, fs', tr)"
  shows "set tr \<subseteq> {PreFlightDone}
       \<or> (\<exists>suite fs finalChanges. finalChanges \<noteq> []
            \<and> backup_and_apply env config suite finalChanges result0 fs [PreFlightDone]
                = (res, fs', tr))"
  using assms unfolding runSafeFixes_def Let_def result0_def [symmetric]
  by (auto simp: caught_def split: prod.splits option.splits sum.splits if_splits)

lemma backup_and_apply_no_backup:
  assumes "backup_and_apply env config suite finalChanges result fs tr = (res, fs', tr')"
    and "\<not> requireBackup config" and "\<not> dryRun config" and "finalChanges \<noteq> []"
  shows "(\<exists>ws e. tr' = tr @ map FileWritten ws \<and> res = result\<lparr>errors := errors result @ [e]\<rparr>)
       \<or> (\<exists>ws b ext. ws \<noteq> [] \<and> tr' = tr @ map FileWritten ws @ ValidationRun b # ext
             \<and> set ext \<subseteq> {CommitAttempted}
             \<and> res = result\<lparr>filesModified := totalFiles (calculateSummary finalChanges),
                            changesApplied := length finalChanges, success := True\<rparr>)"
proof -
  obtain e fs2 tr2 where ap: "applyFixes finalChanges fs tr = (e, fs2, tr2)"
    by (cases "applyFixes finalChanges fs tr")
  from applyFixes_trace [OF ap] assms(4) obtain ws where
    ws: "tr2 = tr @ map FileWritten ws" "e = None \<longrightarrow> ws \<noteq> []" by blast
  show ?thesis
  proof (cases e)
    case (Some err)
    with assms(1,2,3) ap have "res = result\<lparr>errors := errors result @ [error_message err]\<rparr>"
      and "tr' = tr2"
      by (simp_all add: backup_and_apply_def Let_def caught_def)
    with ws(1) show ?thesis by blast
  next
    case None
    let ?r1 = "result\<lparr>filesModified := totalFiles (calculateSummary finalChanges),
                       changesApplied := length finalChanges\<rparr>"
    from None assms(1,2,3) ap
    have "validate_and_finish env config suite None ?r1 fs2 tr2 = (res, fs', tr')"
      by (simp add: backup_and_apply_def Let_def)
    from finish_no_backup [OF this assms(3)] obtain b ext where
      "tr' = tr2 @ ValidationRun b # ext" "set ext \<subseteq> {CommitAttempted}"
      "res = ?r1\<lparr>success := True\<rparr>" by blast
    with ws None have "ws \<noteq> [] \<and> tr' = tr @ map FileWritten ws @ ValidationRun b # ext
             \<and> set ext \<subseteq> {CommitAttempted}
             \<and> res = result\<lparr>filesModified := totalFiles (calculateSummary finalChanges),
                            changesApplied := length finalChanges, success := True\<rparr>"
      by simp
    then show ?thesis by blast
  qed
qed

lemma backup_and_apply_backup:
  assumes "backup_and_apply env config suite finalChanges result fs tr = (res, fs', tr')"
    and "requireBackup config"
    and "ValidationRun False \<notin> set tr" and "ValidationRun False \<in> set tr'"
  shows "RestoreCalled \<in> set tr' \<and> ValidationRun True \<notin> set tr' - set tr
       \<and> success res = success result
       \<and> errors res = errors result @ [''Validation failed - changes rolled back'']"
proof (cases "dryRun config")
  case True
  with assms(1,2) have "validate_and_finish env config suite None result fs (tr @ [DryRunSummary])
                          = (res, fs', tr')"
    by (simp add: backup_and_apply_def Let_def)
  from finish_dry [OF this True] assms(3,4) show ?thesis by auto
next
  case False
  let ?cb = "createBackup (tempDir env) (randomId env) (clock env) fs (uniq (map c_file finalChanges))"
  show ?thesis
  proof (cases ?cb)
    case (Inl e)
    with assms(1,2) False have "tr' = tr"
      by (simp add: backup_and_apply_def Let_def caught_def)
    with assms(3,4) show ?thesis by simp
  next
    case (Inr triple)
    obtain h fs1 logs where triple: "triple = (h, fs1, logs)" by (cases triple)
    let ?r0 = "result\<lparr>backupId := Some (bh_id h)\<rparr>"
    let ?tr0 = "tr @ [BackupCreated (bh_id h)]"
    obtain e fs2 tr2 where ap: "applyFixes finalChanges fs1 ?tr0 = (e, fs2, tr2)"
      by (cases "applyFixes finalChanges fs1 ?tr0")
    from applyFixes_trace [OF ap] obtain ws where ws: "tr2 = ?tr0 @ map FileWritten ws" by blast
    show ?thesis
    proof (cases e)
      case (Some err)
      with assms(1,2) False Inr triple ap have "tr' = tr2"
        by (simp add: backup_and_apply_def Let_def caught_def)
      with ws assms(3,4) show ?thesis by auto
    next
      case None
      let ?r1 = "?r0\<lparr>filesModified := totalFiles (calculateSummary finalChanges),
                        changesApplied := length finalChanges\<rparr>"
      from None assms(1,2) False Inr triple ap
      have "validate_and_finish env config suite (Some h) ?r1 fs2 tr2 = (res, fs', tr')"
        by (simp add: backup_and_apply_def Let_def)
      from finish_backup [OF this False]
      show ?thesis
      proof (elim disjE exE conjE)
        fix ext
        assume "tr' = tr2 @ ValidationRun True # ext" and "set ext \<subseteq> {CleanupCalled, CommitAttempted}"
        with ws assms(3,4) show ?thesis by auto
      next
        assume "tr' = tr2 @ [ValidationRun False, RestoreCalled]"
          and "res = ?r1\<lparr>errors := errors ?r1 @ [''Validation failed - changes rolled back'']\<rparr>"
        with ws show ?thesis by auto
      qed
    qed
  qed
qed

lemmas scenarioT_defs =
  runSafeFixes_def performPreFlightChecks_def backup_and_apply_def validate_and_finish_def
  collectFixes_def shouldSkipFile_def glob_to_regex_def replace_char_def slice0_def
  findConsoleLogStatements_def visit_call_def shouldPreserve_def calculateConfidence_def
  isTestFile_def ends_with_script_ext_def endsWith_def is_ws_def trim_def
  removeConsoleLogs_def remove_one_def method_of_def
  merge_def getDefaultConfig_def opt_field_def or_empty_def spread_def empty_user_def no_match_def
  applyFixes_def fileGroups_def applyChangesToFile_def applyChanges_def sortedChanges_def
  applyChange_def splice_remove_def splice_start_def
  createBackup_def backup_one_def restore_def restore_loop_def restore_one_def cleanup_def
  readFile_def writeFile_def mkdir_def path_join_def basename_def dirname_def strip_slashes_def
  startsWith_def uniq_def calculateSummary_def getChangeType_def
  run_def run_builtin_def record_result_def runCommand_def detectCommands_def
  new_ValidationSuite_def spread_opt_def or_str_def caught_def
  scenarioT_env_def scenarioT_config_def scenarioT_fs_def scenarioT_change_def Let_def

lemma scenarioT_collect:
  "collectFixes (fixer_engines scenarioT_env) (merge (loadedConfig scenarioT_env))
       (scenarioT_config b) scenarioT_fs [''src/app.js''] = Inr [scenarioT_change]"
  by (simp add: scenarioT_defs)

lemma scenarioT_no_backup:
  "runSafeFixes scenarioT_env (scenarioT_config False) scenarioT_fs [''src/app.js'']
     = (scenarioT_result_no_backup, scenarioT_fs_no_backup, scenarioT_trace_no_backup)"
  unfolding scenarioT_result_no_backup_def scenarioT_fs_no_backup_def scenarioT_trace_no_backup_def
  by (simp add: scenarioT_defs)

lemma scenarioT_backup:
  "runSafeFixes scenarioT_env (scenarioT_config True) scenarioT_fs [''src/app.js'']
     = (scenarioT_result_backup, scenarioT_fs_backup, scenarioT_trace_backup)"
  unfolding scenarioT_result_backup_def scenarioT_fs_backup_def scenarioT_trace_backup_def
  by (simp add: scenarioT_defs)

text \<open>
  Claim C9. In every run with \<open>requireBackup\<close> false and \<open>dryRun\<close> false whose validation
  suite, run after the writes, fails: files were written, the result record has
  \<open>success = true\<close>, an empty \<open>errors\<close> list and no backup identifier, and neither \<open>restore\<close>
  nor \<open>cleanup\<close> was called, so the modified files stay on disk and the record says
  nothing of the failure.
\<close>

theorem validation_failure_without_backup_reports_success:
  assumes "\<not> requireBackup config" and "\<not> dryRun config"
    and "runSafeFixes env config fs0 targetFiles = (result, fs', tr)"
    and "ValidationRun False \<in> set tr"
  shows "success result \<and> errors result = [] \<and> backupId result = None
       \<and> 0 < changesApplied result
       \<and> (\<exists>p. FileWritten p \<in> set tr)
       \<and> RestoreCalled \<notin> set tr \<and> CleanupCalled \<notin> set tr"
proof -
  from runSafeFixes_cases [OF assms(3)] assms(4)
  obtain suite fs finalChanges where fc: "finalChanges \<noteq> []"
    and baa: "backup_and_apply env config suite finalChanges result0 fs [PreFlightDone]
                = (result, fs', tr)"
    by auto
  from backup_and_apply_no_backup [OF baa assms(1,2) fc]
  show ?thesis
  proof (elim disjE exE conjE)
    fix ws e
    assume "tr = [PreFlightDone] @ map FileWritten ws"
    with assms(4) show ?thesis by auto
  next
    fix ws b ext
    assume ws: "ws \<noteq> []" and tr: "tr = [PreFlightDone] @ map FileWritten ws @ ValidationRun b # ext"
      and ext: "set ext \<subseteq> {CommitAttempted}"
      and res: "result = result0\<lparr>filesModified := totalFiles (calculateSummary finalChanges),
                            changesApplied := length finalChanges, success := True\<rparr>"
    from ws obtain p where "p \<in> set ws" by (cases ws) auto
    then have "FileWritten p \<in> set tr" by (simp add: tr)
    moreover from ext have "RestoreCalled \<notin> set tr \<and> CleanupCalled \<notin> set tr"
      by (auto simp: tr)
    moreover have "success result \<and> errors result = [] \<and> backupId result = None
                   \<and> 0 < changesApplied result"
      using fc by (simp add: res result0_def)
    ultimately show ?thesis by blast
  qed
qed

theorem validation_failure_without_backup_reports_success_witness:
  "\<not> requireBackup (scenarioT_config False) \<and> \<not> dryRun (scenarioT_config False)
   \<and> runSafeFixes scenarioT_env (scenarioT_config False) scenarioT_fs [''src/app.js'']
       = (scenarioT_result_no_backup, scenarioT_fs_no_backup, scenarioT_trace_no_backup)
   \<and> ValidationRun False \<in> set scenarioT_trace_no_backup
   \<and> success scenarioT_result_no_backup \<and> errors scenarioT_result_no_backup = []
   \<and> backupId scenarioT_result_no_backup = None
   \<and> 0 < changesApplied scenarioT_result_no_backup
   \<and> (\<exists>p. FileWritten p \<in> set scenarioT_trace_no_backup)
   \<and> RestoreCalled \<notin> set scenarioT_trace_no_backup
   \<and> CleanupCalled \<notin> set scenarioT_trace_no_backup"
proof -
  have h1: "\<not> requireBackup (scenarioT_config False)" by (simp add: scenarioT_config_def)
  have h2: "\<not> dryRun (scenarioT_config False)" by (simp add: scenarioT_config_def)
  note h3 = scenarioT_no_backup
  have h4: "ValidationRun False \<in> set scenarioT_trace_no_backup"
    by (simp add: scenarioT_trace_no_backup_def)
  from validation_failure_without_backup_reports_success [OF h1 h2 h3 h4] h1 h2 h3 h4
  show ?thesis by blast
qed

text \<open>
  Claim C1, as the code has it. In every run in which backups are required, files were
  written and the validation suite ran on them: either the validation passed, or \<open>restore\<close>
  was called and the result record reports the failure and the rollback.
\<close>

theorem validation_failure_with_backup_restores:
  assumes "requireBackup config"
    and "runSafeFixes env config fs0 targetFiles = (result, fs', tr)"
    and "FileWritten p \<in> set tr"
    and "ValidationRun b \<in> set tr"
  shows "ValidationRun True \<in> set tr
       \<or> (RestoreCalled \<in> set tr \<and> \<not> success result
           \<and> errors result = [''Validation failed - changes rolled back''])"
proof (cases b)
  case True
  with assms(4) show ?thesis by simp
next
  case False
  with assms(4) have vf: "ValidationRun False \<in> set tr" by simp
  from runSafeFixes_cases [OF assms(2)] vf
  obtain suite fs finalChanges where
    baa: "backup_and_apply env config suite finalChanges result0 fs [PreFlightDone]
            = (result, fs', tr)"
    by auto
  have "ValidationRun False \<notin> set [PreFlightDone]" by simp
  from backup_and_apply_backup [OF baa assms(1) this vf]
  show ?thesis by (simp add: result0_def)
qed

theorem validation_failure_with_backup_restores_witness:
  "requireBackup (scenarioT_config True)
   \<and> runSafeFixes scenarioT_env (scenarioT_config True) scenarioT_fs [''src/app.js'']
       = (scenarioT_result_backup, scenarioT_fs_backup, scenarioT_trace_backup)
   \<and> FileWritten ''src/app.js'' \<in> set scenarioT_trace_backup
   \<and> ValidationRun False \<in> set scenarioT_trace_backup
   \<and> ValidationRun True \<notin> set scenarioT_trace_backup
   \<and> RestoreCalled \<in> set scenarioT_trace_backup
   \<and> success scenarioT_result_backup = False
   \<and> errors scenarioT_result_backup = [''Validation failed - changes rolled back'']
   \<and> contents scenarioT_fs_backup ''src/app.js'' = contents scenarioT_fs ''src/app.js''"
proof -
  have h1: "requireBackup (scenarioT_config True)" by (simp add: scenarioT_config_def)
  note h2 = scenarioT_backup
  have h3: "FileWritten ''src/app.js'' \<in> set scenarioT_trace_backup"
    by (simp add: scenarioT_trace_backup_def)
  have h4: "ValidationRun False \<in> set scenarioT_trace_backup"
    by (simp add: scenarioT_trace_backup_def)
  have n: "ValidationRun True \<notin> set scenarioT_trace_backup"
    by (simp add: scenarioT_trace_backup_def)
  have c: "contents scenarioT_fs_backup ''src/app.js'' = contents scenarioT_fs ''src/app.js''"
    by (simp add: scenarioT_fs_backup_def scenarioT_fs_def)
  from validation_failure_with_backup_restores [OF h1 h2 h3 h4] n
  have "RestoreCalled \<in> set scenarioT_trace_backup \<and> \<not> success scenarioT_result_backup
        \<and> errors scenarioT_result_backup = [''Validation failed - changes rolled back'']"
    by blast
  with h1 h2 h3 h4 n c show ?thesis by simp
qed

text \<open>
  The claim as stated covers the runs without a backup handle too. There the run writes
  \<open>src/app.js\<close>, the validation fails, no \<open>restore\<close> is called and the file stays modified.
\<close>

theorem modified_files_without_restore_counterexample:
  "runSafeFixes scenarioT_env (scenarioT_config False) scenarioT_fs [''src/app.js'']
     = (scenarioT_result_no_backup, scenarioT_fs_no_backup, scenarioT_trace_no_backup)
   \<and> FileWritten ''src/app.js'' \<in> set scenarioT_trace_no_backup
   \<and> ValidationRun True \<notin> set scenarioT_trace_no_backup
   \<and> RestoreCalled \<notin> set scenarioT_trace_no_backup
   \<and> contents scenarioT_fs_no_backup ''src/app.js'' = Some ''main();''
   \<and> contents scenarioT_fs ''src/app.js'' \<noteq> Some ''main();''"
  using scenarioT_no_backup
  by (simp add: scenarioT_trace_no_backup_def scenarioT_fs_no_backup_def scenarioT_fs_def)

section \<open>Properties of the detector and the change builder\<close>

lemma regex_line_confidence:
  "regex_line eng wl filePath l index ms acc = Inr acc' \<Longrightarrow>
   \<forall>f \<in> set acc. confidence f \<ge> 0.9 \<Longrightarrow> \<forall>f \<in> set acc'. confidence f \<ge> 0.9"
proof (induction ms arbitrary: acc)
  case Nil
  then show ?case by simp
next
  case (Cons m ms)
  show ?case
  proof (cases "match_call m l 0")
    case None
    with Cons.prems have "regex_line eng wl filePath l index ms acc = Inr acc'" by simp
    from Cons.IH [OF this Cons.prems(2)] show ?thesis .
  next
    case (Some hit)
    obtain col matched where hit: "hit = (col, matched)" by (cases hit)
    show ?thesis
    proof (cases "shouldPreserve eng wl l")
      case (Inl e)
      with Cons.prems Some hit show ?thesis by simp
    next
      case (Inr keep)
      show ?thesis
      proof (cases keep)
        case True
        with Cons.prems Some hit Inr
        have "regex_line eng wl filePath l index ms acc = Inr acc'" by simp
        from Cons.IH [OF this Cons.prems(2)] show ?thesis .
      next
        case False
        let ?fix = "\<lparr> f_file = filePath, f_line = int index + 1, f_column = col,
                       code = matched, isInTestFile = False, confidence = 0.9 \<rparr>"
        from False Cons.prems Some hit Inr
        have r: "regex_line eng wl filePath l index ms (acc @ [?fix]) = Inr acc'" by simp
        have "\<forall>f \<in> set (acc @ [?fix]). confidence f \<ge> 0.9"
          using Cons.prems(2) by simp
        from Cons.IH [OF r this] show ?thesis .
      qed
    qed
  qed
qed

lemma regex_lines_confidence:
  "regex_lines eng wl filePath ls index acc = Inr acc' \<Longrightarrow>
   \<forall>f \<in> set acc. confidence f \<ge> 0.9 \<Longrightarrow> \<forall>f \<in> set acc'. confidence f \<ge> 0.9"
proof (induction ls arbitrary: index acc)
  case Nil
  then show ?case by simp
next
  case (Cons l ls)
  show ?case
  proof (cases "regex_line eng wl filePath l index safePatterns acc")
    case (Inl e)
    with Cons.prems show ?thesis by simp
  next
    case (Inr acc1)
    with Cons.prems have r: "regex_lines eng wl filePath ls (index + 1) acc1 = Inr acc'" by simp
    from regex_line_confidence [OF Inr Cons.prems(2)]
    have "\<forall>f \<in> set acc1. confidence f \<ge> 0.9" .
    from Cons.IH [OF r this] show ?thesis .
  qed
qed

lemma findWithRegex_confidence:
  "findWithRegex eng wl filePath content = Inr acc \<Longrightarrow> \<forall>f \<in> set acc. confidence f \<ge> 0.9"
  unfolding findWithRegex_def by (erule regex_lines_confidence) simp

text \<open>
  Every candidate that \<open>findConsoleLogStatements\<close> returns, on the syntax-tree path and on
  the regular-expression path alike, has confidence at least 0.9, the literal the detector
  filters with, which is also the default \<open>minConfidence\<close> of the console category.
\<close>

lemma detector_confidence_threshold:
  assumes "findConsoleLogStatements eng wl fs filePath = Inr acc"
    and "fix \<in> set acc"
  shows "confidence fix \<ge> 0.9
       \<and> minConfidence (console_logs (categories (fixesCfg getDefaultConfig))) = Some 0.9"
proof -
  have d: "minConfidence (console_logs (categories (fixesCfg getDefaultConfig))) = Some 0.9"
    by (simp add: getDefaultConfig_def)
  from assms(1) obtain content where rd: "readFile fs filePath = Inr content"
    by (cases "readFile fs filePath") (simp_all add: findConsoleLogStatements_def)
  have "\<forall>f \<in> set acc. confidence f \<ge> 0.9"
  proof (cases "isTestFile filePath")
    case True
    with assms(1) rd show ?thesis by (simp add: findConsoleLogStatements_def Let_def)
  next
    case False
    show ?thesis
    proof (cases "parse_calls eng content")
      case None
      with assms(1) rd False have "findWithRegex eng wl filePath content = Inr acc"
        by (simp add: findConsoleLogStatements_def Let_def)
      then show ?thesis by (rule findWithRegex_confidence)
    next
      case (Some nodes)
      show ?thesis
      proof (cases "traverse eng wl filePath (split_lines content) nodes []")
        case None
        with assms(1) rd False Some have "findWithRegex eng wl filePath content = Inr acc"
          by (simp add: findConsoleLogStatements_def Let_def)
        then show ?thesis by (rule findWithRegex_confidence)
      next
        case (Some raw)
        with assms(1) rd False \<open>parse_calls eng content = Some nodes\<close>
        have "acc = filter (\<lambda>fix. confidence fix \<ge> 0.9) raw"
          by (simp add: findConsoleLogStatements_def Let_def)
        then show ?thesis by simp
      qed
    qed
  qed
  with assms(2) d show ?thesis by simp
qed

lemmas detector_defs =
  findConsoleLogStatements_def findWithRegex_def visit_call_def shouldPreserve_def
  calculateConfidence_def isTestFile_def ends_with_script_ext_def endsWith_def startsWith_def
  match_call_here_def safePatterns_def is_ws_def
  readFile_def merge_def getDefaultConfig_def opt_field_def or_empty_def spread_def
  no_match_def empty_user_def Let_def

lemmas collector_defs =
  collectFixes_def shouldSkipFile_def glob_to_regex_def replace_char_def slice0_def
  removeConsoleLogs_def remove_one_def method_of_def trim_def scenarioT_config_def

lemma scenarioM_detect:
  "findConsoleLogStatements scenarioM_engines (Some (whitelist (merge scenarioM_user)))
       scenarioM_fs ''src/app.js'' = Inr [scenarioM_fix]"
  by (simp add: detector_defs scenarioM_engines_def scenarioM_fs_def scenarioM_user_def
      scenarioM_fix_def)

lemma scenarioM_collect:
  "collectFixes scenarioM_engines (merge scenarioM_user) (scenarioT_config False) scenarioM_fs
       [''src/app.js'']
     = Inr [\<lparr> c_file = ''src/app.js'', line = 1, ctype = Remove,
               oldContent = Some ''console.log(x);'', newContent = None,
               description = ''Remove console.log statement'' \<rparr>]"
  by (simp add: collector_defs detector_defs scenarioM_engines_def scenarioM_fs_def
      scenarioM_user_def)

text \<open>
  Claim C8, at a configuration that raises \<open>minConfidence\<close> of the console category to 0.97.
  The merged configuration carries 0.97, yet the detector, which filters with the literal
  0.9, returns the candidate of confidence 0.95, and \<open>collectFixes\<close> puts its edit into the
  change set that goes to the preview: the configured minimum excludes nothing.
\<close>

theorem configured_minimum_not_applied:
  "minConfidence (console_logs (categories (fixesCfg (merge scenarioM_user)))) = Some 0.97
   \<and> findConsoleLogStatements scenarioM_engines (Some (whitelist (merge scenarioM_user)))
         scenarioM_fs ''src/app.js'' = Inr [scenarioM_fix]
   \<and> confidence scenarioM_fix < 0.97
   \<and> collectFixes scenarioM_engines (merge scenarioM_user) (scenarioT_config False) scenarioM_fs
         [''src/app.js'']
       = Inr [\<lparr> c_file = ''src/app.js'', line = 1, ctype = Remove,
                 oldContent = Some ''console.log(x);'', newContent = None,
                 description = ''Remove console.log statement'' \<rparr>]"
  using scenarioM_detect scenarioM_collect
  by (simp add: merge_def getDefaultConfig_def opt_field_def spread_def scenarioM_user_def
      empty_user_def scenarioM_fix_def Let_def)

text \<open>
  Claim C5, at a file the parser rejects. The marker line itself is recognised, and on the
  syntax-tree path the call on the line after it is suppressed; the regular-expression
  fallback looks at the line of the call only and returns the call as a candidate, whose
  Remove edit \<open>collectFixes\<close> puts into the change set.
\<close>

theorem regex_fallback_ignores_preceding_marker:
  "shouldPreserve scenarioP_engines (Some (whitelist (merge empty_user))) ''// @vibesweep-ignore''
     = Inr True
   \<and> findConsoleLogStatements scenarioP_engines (Some (whitelist (merge empty_user)))
         scenarioP_fs ''src/ok.js'' = Inr []
   \<and> findConsoleLogStatements scenarioP_engines (Some (whitelist (merge empty_user)))
         scenarioP_fs ''src/bad.js''
       = Inr [\<lparr> f_file = ''src/bad.js'', f_line = 2, f_column = 0, code = ''console.log('',
                 isInTestFile = False, confidence = 0.9 \<rparr>]
   \<and> collectFixes scenarioP_engines (merge empty_user) (scenarioT_config False) scenarioP_fs
         [''src/ok.js'', ''src/bad.js'']
       = Inr [\<lparr> c_file = ''src/bad.js'', line = 2, ctype = Remove,
                 oldContent = Some ''console.log(1);'', newContent = None,
                 description = ''Remove console.log statement'' \<rparr>]"
  by (simp add: collector_defs detector_defs scenarioP_engines_def scenarioP_fs_def
      scenarioP_ok_def scenarioP_bad_def)

lemmas builder_defs =
  removeConsoleLogs_def remove_one_def find_endLine_def replace_stmt.simps match_stmt_here_def
  match_method_def method_of_def trim_def endsWith_def startsWith_def is_ws_def readFile_def
  scenarioB_fs_def scenarioB_fix_def scenarioB_line_def Let_def

text \<open>
  Claim C7, at three lines. A line that starts with a console call and goes on with other
  code gets a Remove edit for the whole line, although the trimmed line is not the matched
  statement. The line of Scenario B gets the Replace edit the claim describes when no later
  line contains \<open>);\<close>, and two Remove edits when the next line does.
\<close>

theorem removeConsoleLogs_removes_line_with_other_code:
  "removeConsoleLogs scenarioB_fs ''src/a.js'' [scenarioB_fix ''src/a.js'' ''console.log('a')'' 0]
     = Inr [\<lparr> c_file = ''src/a.js'', line = 1, ctype = Remove,
               oldContent = Some ''console.log('a'); doWork();'', newContent = None,
               description = ''Remove console.log statement'' \<rparr>]
   \<and> trim ''console.log('a'); doWork();'' \<noteq> ''console.log('a')''
   \<and> trim ''console.log('a'); doWork();'' \<noteq> ''console.log('a');''
   \<and> removeConsoleLogs scenarioB_fs ''src/b.js''
         [scenarioB_fix ''src/b.js'' ''console.log('value:',x)'' 13]
     = Inr [\<lparr> c_file = ''src/b.js'', line = 1, ctype = Replace,
               oldContent = Some scenarioB_line,
               newContent = Some ''const x = 5;  const y = 10;'',
               description = ''Remove console.log from line'' \<rparr>]
   \<and> removeConsoleLogs scenarioB_fs ''src/c.js''
         [scenarioB_fix ''src/c.js'' ''console.log('value:',x)'' 13]
     = Inr [\<lparr> c_file = ''src/c.js'', line = 1, ctype = Remove,
               oldContent = Some scenarioB_line, newContent = None,
               description = ''Remove multi-line console.log statement'' \<rparr>,
            \<lparr> c_file = ''src/c.js'', line = 2, ctype = Remove,
               oldContent = Some ''done();'', newContent = None,
               description = ''Remove multi-line console.log statement'' \<rparr>]"
  by (simp add: builder_defs)

end
